theory Spec2Isabelle
  imports Complex_Main
begin

section \<open>Python primitives used by the package\<close>

text \<open>
  Text is a list of 8-bit characters. The embedding is exact on ASCII text; a character
  above 0x7F is carried along unchanged: it has no case, is no word character and no
  white space. None of the pattern tables of the package contains such a character.
\<close>

datatype error =
    UnknownCategory string
  | UnknownComponent string "string list"
  | InvalidCount
  | KeyError string
  | AttributeError
  | TypeError
  | IntValueError string

text \<open>
  The constructors name the exceptions of the source:
  \<^item> \<open>UnknownCategory c\<close> is \<^verbatim>\<open>ValueError(f"Unknown category: {category}")\<close>;
  \<^item> \<open>UnknownComponent n ks\<close> is \<^verbatim>\<open>ValueError(f"Unknown component: {component_name}. Available: {available}")\<close>;
  \<^item> \<open>InvalidCount\<close> is \<^verbatim>\<open>ValueError("Count must be between 1 and 5")\<close>;
  \<^item> \<open>KeyError k\<close> is a failed subscript \<^verbatim>\<open>d[k]\<close>;
  \<^item> \<open>AttributeError\<close> is \<^verbatim>\<open>None.upper()\<close>;
  \<^item> \<open>TypeError\<close> is \<^verbatim>\<open>', '.join(parts)\<close> with a \<^verbatim>\<open>None\<close> among the parts;
  \<^item> \<open>IntValueError s\<close> is \<^verbatim>\<open>int(s)\<close> on a string that is no number.
\<close>

definition bind_err :: "error + 'a \<Rightarrow> ('a \<Rightarrow> error + 'b) \<Rightarrow> error + 'b" where
  "bind_err r f = (case r of Inl e \<Rightarrow> Inl e | Inr v \<Rightarrow> f v)"

subsection \<open>Characters and strings\<close>

definition lower_char :: "char \<Rightarrow> char" where
  "lower_char c =
     (case map_of (zip ''ABCDEFGHIJKLMNOPQRSTUVWXYZ'' ''abcdefghijklmnopqrstuvwxyz'') c of
        Some l \<Rightarrow> l | None \<Rightarrow> c)"

definition upper_char :: "char \<Rightarrow> char" where
  "upper_char c =
     (case map_of (zip ''abcdefghijklmnopqrstuvwxyz'' ''ABCDEFGHIJKLMNOPQRSTUVWXYZ'') c of
        Some u \<Rightarrow> u | None \<Rightarrow> c)"

definition py_lower :: "string \<Rightarrow> string" where
  "py_lower s = map lower_char s"

definition py_upper :: "string \<Rightarrow> string" where
  "py_upper s = map upper_char s"

text \<open>\<^verbatim>\<open>\w\<close> and \<^verbatim>\<open>\s\<close> of the \<^verbatim>\<open>re\<close> module on \<^verbatim>\<open>str\<close> patterns, ASCII range.\<close>

definition is_word_char :: "char \<Rightarrow> bool" where
  "is_word_char c \<longleftrightarrow>
     c \<in> set ''abcdefghijklmnopqrstuvwxyzABCDEFGHIJKLMNOPQRSTUVWXYZ0123456789_''"

definition is_space_char :: "char \<Rightarrow> bool" where
  "is_space_char c \<longleftrightarrow>
     c \<in> set [CHR '' '', CHR 0x09, CHR 0x0A, CHR 0x0B, CHR 0x0C, CHR 0x0D,
               CHR 0x1C, CHR 0x1D, CHR 0x1E, CHR 0x1F]"

definition is_digit_char :: "char \<Rightarrow> bool" where
  "is_digit_char c \<longleftrightarrow> c \<in> set ''0123456789''"

text \<open>\<^verbatim>\<open>s.startswith(w)\<close>, \<^verbatim>\<open>s.endswith(w)\<close> and the substring test \<^verbatim>\<open>w in s\<close>.\<close>

definition startswith :: "string \<Rightarrow> string \<Rightarrow> bool" where
  "startswith s w \<longleftrightarrow> take (length w) s = w"

definition endswith :: "string \<Rightarrow> string \<Rightarrow> bool" where
  "endswith s w \<longleftrightarrow> length w \<le> length s \<and> drop (length s - length w) s = w"

fun str_in :: "string \<Rightarrow> string \<Rightarrow> bool" where
  "str_in w [] = (w = [])"
| "str_in w (c # s) = (startswith (c # s) w \<or> str_in w s)"

text \<open>\<^verbatim>\<open>sep.join(parts)\<close>.\<close>

fun py_join :: "string \<Rightarrow> string list \<Rightarrow> string" where
  "py_join sep [] = []"
| "py_join sep [p] = p"
| "py_join sep (p # q # ps) = p @ sep @ py_join sep (q # ps)"

text \<open>
  \<^verbatim>\<open>s.replace(old, new)\<close> for a non-empty \<open>old\<close>: every occurrence, left to right,
  without overlap.
\<close>

fun py_replace :: "string \<Rightarrow> string \<Rightarrow> string \<Rightarrow> string" where
  "py_replace old new [] = []"
| "py_replace old new (c # s) =
     (if old \<noteq> [] \<and> startswith (c # s) old
      then new @ py_replace old new (drop (length old) (c # s))
      else c # py_replace old new s)"

text \<open>\<^verbatim>\<open>str(n)\<close> for an integer.\<close>

fun digits_of :: "nat \<Rightarrow> nat \<Rightarrow> string" where
  "digits_of 0 n = []"
| "digits_of (Suc fuel) n =
     (if n < 10 then [''0123456789'' ! n]
      else digits_of fuel (n div 10) @ [''0123456789'' ! (n mod 10)])"

definition py_str_int :: "int \<Rightarrow> string" where
  "py_str_int i =
     (if i < 0 then CHR ''-'' # digits_of (Suc (nat (- i))) (nat (- i))
      else digits_of (Suc (nat i)) (nat i))"

text \<open>
  \<^verbatim>\<open>s.isdigit()\<close>, and \<^verbatim>\<open>int(s)\<close> on a string of decimal digits. Python's \<^verbatim>\<open>int\<close> also
  accepts a sign, surrounding white space and underscores; the package calls it only
  behind the \<^verbatim>\<open>isdigit\<close> test, and the model raises on everything else.
\<close>

definition py_isdigit :: "string \<Rightarrow> bool" where
  "py_isdigit s \<longleftrightarrow> s \<noteq> [] \<and> list_all is_digit_char s"

definition digit_val :: "char \<Rightarrow> int" where
  "digit_val c = (case map_of (zip ''0123456789'' [0, 1, 2, 3, 4, 5, 6, 7, 8, 9]) c of
                    Some d \<Rightarrow> d | None \<Rightarrow> 0)"

definition py_int :: "string \<Rightarrow> error + int" where
  "py_int s =
     (if s \<noteq> [] \<and> list_all is_digit_char s
      then Inr (foldl (\<lambda>acc c. 10 * acc + digit_val c) 0 s)
      else Inl (IntValueError s))"

text \<open>Truthiness and \<^verbatim>\<open>str()\<close> of an optional string: \<^verbatim>\<open>None\<close> and \<^verbatim>\<open>''\<close> are falsy.\<close>

fun truthy :: "string option \<Rightarrow> bool" where
  "truthy None = False"
| "truthy (Some s) = (s \<noteq> [])"

fun str_opt :: "string option \<Rightarrow> string" where
  "str_opt None = ''None''"
| "str_opt (Some s) = s"

subsection \<open>Dictionaries with insertion order\<close>

text \<open>
  A Python \<^verbatim>\<open>dict\<close> keeps its keys in insertion order, and the order of the sections
  is what the assembler is for: a dictionary is an association list with distinct keys.
  \<open>dict_set\<close> is \<^verbatim>\<open>d[k] = v\<close>: an existing key keeps its place, a new key goes last.
\<close>

type_synonym ('k, 'v) dict = "('k \<times> 'v) list"

definition keys :: "('k, 'v) dict \<Rightarrow> 'k list" where
  "keys d = map fst d"

definition dict_values :: "('k, 'v) dict \<Rightarrow> 'v list" where
  "dict_values d = map snd d"

definition dict_get :: "('k, 'v) dict \<Rightarrow> 'k \<Rightarrow> 'v option" where
  "dict_get d k = map_of d k"

definition has_key :: "('k, 'v) dict \<Rightarrow> 'k \<Rightarrow> bool" where
  "has_key d k \<longleftrightarrow> k \<in> set (keys d)"

fun dict_set :: "('k, 'v) dict \<Rightarrow> 'k \<Rightarrow> 'v \<Rightarrow> ('k, 'v) dict" where
  "dict_set [] k v = [(k, v)]"
| "dict_set ((k', v') # d) k v =
     (if k' = k then (k, v) # d else (k', v') # dict_set d k v)"

section \<open>The subset of regular expressions the parser uses\<close>

text \<open>
  The patterns of \<^verbatim>\<open>tools/parser.py\<close> are built from literals, \<^verbatim>\<open>\b\<close>, \<^verbatim>\<open>\w+\<close>, \<^verbatim>\<open>\s+\<close>,
  \<^verbatim>\<open>\s*\<close>, alternation, an optional group and capturing groups; all are used with
  \<^verbatim>\<open>re.IGNORECASE\<close>. \<open>rmatch\<close> gives the backtracking semantics of \<^verbatim>\<open>re\<close>: the list of
  all ways the pattern matches from a position, in the order the engine tries them
  (alternatives left to right, greedy repetition longest first, a present optional
  group before an absent one). The head of the list is the match \<^verbatim>\<open>re\<close> reports.
\<close>

datatype cclass = Word | Space

datatype re =
    Lit string
  | Bnd
  | Plus cclass
  | Star cclass
  | Alt "re list"
  | Opt re
  | Grp nat re
  | Seq "re list"

type_synonym groups = "(nat, nat \<times> nat) dict"
type_synonym mstate = "nat \<times> groups"

fun in_class :: "cclass \<Rightarrow> char \<Rightarrow> bool" where
  "in_class Word c = is_word_char c"
| "in_class Space c = is_space_char c"

definition lit_matches :: "string \<Rightarrow> string \<Rightarrow> bool" where
  "lit_matches w s \<longleftrightarrow>
     length w \<le> length s \<and> py_lower (take (length w) s) = py_lower w"

definition word_at :: "string \<Rightarrow> nat \<Rightarrow> bool" where
  "word_at t i \<longleftrightarrow> i < length t \<and> is_word_char (t ! i)"

definition at_boundary :: "string \<Rightarrow> nat \<Rightarrow> bool" where
  "at_boundary t i \<longleftrightarrow> ((0 < i \<and> word_at t (i - 1)) \<noteq> word_at t i)"

definition run_length :: "cclass \<Rightarrow> string \<Rightarrow> nat \<Rightarrow> nat" where
  "run_length c t i = length (takeWhile (in_class c) (drop i t))"

fun rmatch :: "string \<Rightarrow> re \<Rightarrow> mstate \<Rightarrow> mstate list" where
  "rmatch t (Lit w) (i, g) = (if lit_matches w (drop i t) then [(i + length w, g)] else [])"
| "rmatch t Bnd (i, g) = (if at_boundary t i then [(i, g)] else [])"
| "rmatch t (Plus c) (i, g) = map (\<lambda>k. (i + k, g)) (rev [1 ..< Suc (run_length c t i)])"
| "rmatch t (Star c) (i, g) = map (\<lambda>k. (i + k, g)) (rev [0 ..< Suc (run_length c t i)])"
| "rmatch t (Alt rs) s = concat (map (\<lambda>r. rmatch t r s) rs)"
| "rmatch t (Opt r) s = rmatch t r s @ [s]"
| "rmatch t (Grp n r) (i, g) = map (\<lambda>(j, g'). (j, dict_set g' n (i, j))) (rmatch t r (i, g))"
| "rmatch t (Seq []) s = [s]"
| "rmatch t (Seq (r # rs)) s = concat (map (rmatch t (Seq rs)) (rmatch t r s))"

text \<open>
  A match object: where the match starts and ends, and the spans of the groups that took
  part. \<open>group0\<close> is \<^verbatim>\<open>m.group(0)\<close>, \<open>group m n\<close> is \<^verbatim>\<open>m.group(n)\<close>, which is
  \<^verbatim>\<open>None\<close> for a group that did not take part.
\<close>

record rmatch_obj =
  mo_text :: string
  mo_start :: nat
  mo_end :: nat
  mo_groups :: groups

definition span :: "string \<Rightarrow> nat \<Rightarrow> nat \<Rightarrow> string" where
  "span t i j = take (j - i) (drop i t)"

definition group0 :: "rmatch_obj \<Rightarrow> string" where
  "group0 m = span (mo_text m) (mo_start m) (mo_end m)"

definition group :: "rmatch_obj \<Rightarrow> nat \<Rightarrow> string option" where
  "group m n = (case dict_get (mo_groups m) n of
                  None \<Rightarrow> None | Some (i, j) \<Rightarrow> Some (span (mo_text m) i j))"

definition match_at :: "re \<Rightarrow> string \<Rightarrow> nat \<Rightarrow> rmatch_obj option" where
  "match_at r t i =
     (case rmatch t r (i, []) of
        [] \<Rightarrow> None
      | (j, g) # _ \<Rightarrow> Some \<lparr>mo_text = t, mo_start = i, mo_end = j, mo_groups = g\<rparr>)"

text \<open>
  \<open>search_from r t i n\<close> tries the start positions \<open>i, i + 1, \<dots>, i + n\<close> in turn;
  \<^verbatim>\<open>re.search(r, t)\<close> tries every position from \<open>0\<close> to \<open>len(t)\<close>.
\<close>

fun search_from :: "re \<Rightarrow> string \<Rightarrow> nat \<Rightarrow> nat \<Rightarrow> rmatch_obj option" where
  "search_from r t i 0 = match_at r t i"
| "search_from r t i (Suc n) =
     (case match_at r t i of Some m \<Rightarrow> Some m | None \<Rightarrow> search_from r t (Suc i) n)"

definition re_search :: "re \<Rightarrow> string \<Rightarrow> rmatch_obj option" where
  "re_search r t = search_from r t 0 (length t)"

text \<open>
  \<^verbatim>\<open>re.finditer(r, t)\<close>: the successive matches, each search starting where the match
  before it ended. The one pattern the parser iterates over cannot match the empty
  string; after an empty match the model moves on by one character. A match never starts
  before \<open>pos\<close>, so the next search starts at \<open>mo_end m\<close> after a non-empty match.
\<close>

function finditer_from :: "re \<Rightarrow> string \<Rightarrow> nat \<Rightarrow> rmatch_obj list" where
  "finditer_from r t pos =
     (if length t < pos then []
      else (case search_from r t pos (length t - pos) of
              None \<Rightarrow> []
            | Some m \<Rightarrow>
                m # finditer_from r t
                      (pos + (mo_start m - pos) + max 1 (mo_end m - mo_start m))))"
  by pat_completeness auto
termination
  by (relation "measure (\<lambda>(r, t, pos). Suc (length t) - pos)") auto

definition re_finditer :: "re \<Rightarrow> string \<Rightarrow> rmatch_obj list" where
  "re_finditer r t = finditer_from r t 0"

section \<open>The data model\<close>

text \<open>
  The dictionaries of the package with a fixed key set are records; a value that may be
  \<^verbatim>\<open>None\<close> is an option. \<^verbatim>\<open>m.group(n)\<close> is an optional string, so the lists built from
  groups (\<open>s_attributes\<close>, \<open>objects\<close>) hold optional strings.
\<close>

record subject_rec =
  s_type :: string
  s_name :: "string option"
  s_attributes :: "string option list"
  s_profession :: "string option"
  s_count :: int

record action_rec =
  a_verb :: "string option"
  a_energy_level :: string
  a_object :: "string option"
  a_modifier :: "string option"
  a_progressive :: bool

record setting_rec =
  st_type :: string
  st_location :: "string option"
  st_attributes :: "string list"
  st_time :: "string option"

record mood_rec =
  m_emotion :: "string option"
  m_valence :: string
  m_intensity :: string

text \<open>
  The ComponentSet. \<^verbatim>\<open>parse_prompt_components\<close> builds the six component fields;
  \<^verbatim>\<open>parse_prompt\<close> then stores the weights under \<^verbatim>\<open>'semantic_weights'\<close>, a key that is
  absent (\<open>None\<close>) before.
\<close>

record component_set =
  c_subject :: subject_rec
  c_action :: action_rec
  c_setting :: setting_rec
  c_objects :: "string option list"
  c_colors :: "string list"
  c_mood :: mood_rec
  c_semantic_weights :: "(string, int) dict option"

text \<open>The cross-category lookup tables (\<^verbatim>\<open>transformation_maps\<close>).\<close>

record transformation_maps =
  profession_to_icon_props :: "(string, string) dict"
  emotion_to_mascot_face :: "(string, string) dict"
  location_to_fantasy :: "(string, string) dict"

section \<open>\<^verbatim>\<open>tools/parser.py\<close>\<close>

text \<open>\<^verbatim>\<open>r'\b(w1|w2|...)\b'\<close>\<close>

definition word_pattern :: "string list \<Rightarrow> re" where
  "word_pattern ws = Seq [Bnd, Grp 1 (Alt (map Lit ws)), Bnd]"

definition subjects :: "(string \<times> re) list" where
  "subjects =
     [(''human'', word_pattern
         [''person'', ''people'', ''man'', ''woman'', ''child'', ''kid'', ''adult'',
          ''teenager'', ''boy'', ''girl'', ''chef'', ''doctor'', ''firefighter'',
          ''teacher'', ''artist'', ''musician'', ''pilot'', ''detective'', ''scientist'',
          ''astronaut'', ''athlete'', ''dancer'', ''singer'', ''wizard'', ''warrior'',
          ''knight'', ''pirate'', ''ninja'', ''superhero'']),
      (''animal'', word_pattern
         [''cat'', ''dog'', ''bird'', ''fish'', ''horse'', ''lion'', ''tiger'', ''bear'',
          ''elephant'', ''dragon'', ''phoenix'', ''unicorn'', ''griffin'', ''kitten'',
          ''puppy'']),
      (''object'', word_pattern
         [''car'', ''boat'', ''plane'', ''bicycle'', ''train'', ''rocket'', ''sword'',
          ''hammer'', ''book'', ''computer'', ''phone'', ''camera'', ''chair'', ''table'']),
      (''food'', word_pattern
         [''pizza'', ''burger'', ''sandwich'', ''taco'', ''pasta'', ''apple'', ''banana'',
          ''strawberry'', ''cake'', ''cookie'', ''donut''])]"

text \<open>\<^verbatim>\<open>rf'\b(\w+)\s+{subject_name}\b'\<close>\<close>

definition attr_pattern :: "string \<Rightarrow> re" where
  "attr_pattern subject_name = Seq [Bnd, Grp 1 (Plus Word), Plus Space, Lit subject_name, Bnd]"

text \<open>\<^verbatim>\<open>r'\b(two|three|four|five|six|2|3|4|5|6)\s+' + subject_name\<close>\<close>

definition count_pattern :: "string \<Rightarrow> re" where
  "count_pattern subject_name =
     Seq [Bnd,
          Grp 1 (Alt [Lit ''two'', Lit ''three'', Lit ''four'', Lit ''five'', Lit ''six'',
                      Lit ''2'', Lit ''3'', Lit ''4'', Lit ''5'', Lit ''6'']),
          Plus Space, Lit subject_name]"

definition count_map :: "(string, int) dict" where
  "count_map = [(''two'', 2), (''three'', 3), (''four'', 4), (''five'', 5), (''six'', 6)]"

definition default_subject :: subject_rec where
  "default_subject =
     \<lparr>s_type = ''abstract'', s_name = None, s_attributes = [], s_profession = None,
      s_count = 0\<rparr>"

text \<open>
  The count of a found subject. The default of \<^verbatim>\<open>count_map.get\<close> is evaluated before
  the lookup, so \<^verbatim>\<open>int(count_word)\<close> runs whenever the word is all digits.
\<close>

definition subject_count :: "string \<Rightarrow> string \<Rightarrow> error + int" where
  "subject_count subject_name prompt =
     (case re_search (count_pattern subject_name) prompt of
        None \<Rightarrow> Inr 1
      | Some count_match \<Rightarrow>
          (case group count_match 1 of
             None \<Rightarrow> Inl AttributeError
           | Some w \<Rightarrow>
               (let count_word = py_lower w in
                bind_err (if py_isdigit count_word then py_int count_word else Inr 1)
                  (\<lambda>dflt. Inr (case dict_get count_map count_word of
                                  Some n \<Rightarrow> n | None \<Rightarrow> dflt)))))"

text \<open>The body of the loop of \<^verbatim>\<open>extract_subject\<close> once a pattern has matched.\<close>

definition subject_of_match ::
  "string \<Rightarrow> rmatch_obj \<Rightarrow> string \<Rightarrow> transformation_maps \<Rightarrow> error + subject_rec" where
  "subject_of_match subject_type m prompt maps =
     (let subject_name = group0 m;
          attributes = (case re_search (attr_pattern subject_name) prompt of
                          Some attr_match \<Rightarrow> [group attr_match 1]
                        | None \<Rightarrow> []);
          profession =
            (if subject_type = ''human''
                \<and> has_key (profession_to_icon_props maps) (py_lower subject_name)
             then Some (py_lower subject_name) else None)
      in bind_err (subject_count subject_name prompt)
           (\<lambda>count. Inr \<lparr>s_type = subject_type, s_name = Some subject_name,
                          s_attributes = attributes, s_profession = profession,
                          s_count = count\<rparr>))"

fun extract_subject_loop ::
  "(string \<times> re) list \<Rightarrow> string \<Rightarrow> transformation_maps \<Rightarrow> error + subject_rec" where
  "extract_subject_loop [] prompt maps = Inr default_subject"
| "extract_subject_loop ((subject_type, pattern) # rest) prompt maps =
     (case re_search pattern prompt of
        Some m \<Rightarrow> subject_of_match subject_type m prompt maps
      | None \<Rightarrow> extract_subject_loop rest prompt maps)"

definition extract_subject :: "string \<Rightarrow> transformation_maps \<Rightarrow> error + subject_rec" where
  "extract_subject prompt maps = extract_subject_loop subjects prompt maps"

definition actions :: "(string \<times> string list) list" where
  "actions =
     [(''high_energy'', [''running'', ''jumping'', ''flying'', ''racing'', ''sprinting'',
                         ''leaping'', ''dashing'']),
      (''medium_energy'', [''walking'', ''swimming'', ''climbing'', ''dancing'', ''playing'',
                           ''working'', ''cooking'']),
      (''low_energy'', [''sitting'', ''standing'', ''lying'', ''resting'', ''reading'',
                        ''thinking'', ''meditating''])]"

text \<open>\<^verbatim>\<open>rf'{verb}\s+(a|an|the)?\s*(\w+)'\<close>\<close>

definition obj_pattern :: "string \<Rightarrow> re" where
  "obj_pattern verb =
     Seq [Lit verb, Plus Space, Opt (Grp 1 (Alt [Lit ''a'', Lit ''an'', Lit ''the''])),
          Star Space, Grp 2 (Plus Word)]"

definition intensity_modifiers :: "string list" where
  "intensity_modifiers =
     [''violently'', ''intensely'', ''quickly'', ''slowly'', ''gently'', ''carefully'']"

definition default_action :: action_rec where
  "default_action =
     \<lparr>a_verb = None, a_energy_level = ''low'', a_object = None, a_modifier = None,
      a_progressive = False\<rparr>"

definition action_of_verb :: "string \<Rightarrow> string \<Rightarrow> string \<Rightarrow> action_rec" where
  "action_of_verb verb energy_level prompt =
     (let action_object = (case re_search (obj_pattern verb) prompt of
                             Some obj_match \<Rightarrow> group obj_match 2
                           | None \<Rightarrow> None);
          modifier = find (\<lambda>modifier. str_in modifier (py_lower prompt)) intensity_modifiers
      in \<lparr>a_verb = Some verb,
          a_energy_level = py_replace ''_energy'' [] energy_level,
          a_object = action_object,
          a_modifier = modifier,
          a_progressive = str_in ''ing'' (py_lower prompt)\<rparr>)"

fun extract_action_loop :: "(string \<times> string list) list \<Rightarrow> string \<Rightarrow> action_rec" where
  "extract_action_loop [] prompt = default_action"
| "extract_action_loop ((energy_level, verbs) # rest) prompt =
     (case find (\<lambda>verb. str_in verb (py_lower prompt)) verbs of
        Some verb \<Rightarrow> action_of_verb verb energy_level prompt
      | None \<Rightarrow> extract_action_loop rest prompt)"

definition extract_action :: "string \<Rightarrow> action_rec" where
  "extract_action prompt = extract_action_loop actions prompt"

definition settings :: "(string \<times> re) list" where
  "settings =
     [(''indoor_specific'', word_pattern
         [''kitchen'', ''bedroom'', ''office'', ''classroom'', ''library'', ''lab'',
          ''studio'', ''garage'', ''bathroom'', ''hallway'']),
      (''indoor_generic'', word_pattern
         [''inside'', ''indoors'', ''room'', ''building'', ''house'']),
      (''outdoor_natural'', word_pattern
         [''forest'', ''mountain'', ''beach'', ''desert'', ''jungle'', ''field'', ''river'',
          ''lake'', ''ocean'', ''park'', ''garden'']),
      (''outdoor_urban'', word_pattern
         [''street'', ''city'', ''downtown'', ''alley'', ''plaza'', ''rooftop'',
          ''sidewalk'']),
      (''fantasy'', word_pattern
         [''castle'', ''dungeon'', ''spaceship'', ''alien planet'', ''magical realm'',
          ''dimension''])]"

definition atmosphere_words :: "string list" where
  "atmosphere_words =
     [''busy'', ''quiet'', ''dark'', ''bright'', ''crowded'', ''empty'', ''chaotic'',
      ''peaceful'']"

definition time_pattern :: re where
  "time_pattern = word_pattern
     [''dawn'', ''sunrise'', ''morning'', ''noon'', ''afternoon'', ''sunset'', ''dusk'',
      ''evening'', ''night'', ''midnight'']"

text \<open>
  The loop \<^verbatim>\<open>for w in table: if w in text: found.append(w)\<close>, shared by the atmosphere
  words and the colors.
\<close>

fun collect_found :: "string list \<Rightarrow> string \<Rightarrow> string list \<Rightarrow> string list" where
  "collect_found [] text found = found"
| "collect_found (w # ws) text found =
     collect_found ws text (if str_in w text then found @ [w] else found)"

definition default_setting :: setting_rec where
  "default_setting =
     \<lparr>st_type = ''abstract'', st_location = None, st_attributes = [], st_time = None\<rparr>"

definition setting_of_match :: "string \<Rightarrow> rmatch_obj \<Rightarrow> string \<Rightarrow> setting_rec" where
  "setting_of_match setting_type m prompt =
     \<lparr>st_type = setting_type,
      st_location = Some (group0 m),
      st_attributes = collect_found atmosphere_words (py_lower prompt) [],
      st_time = map_option group0 (re_search time_pattern prompt)\<rparr>"

fun extract_setting_loop :: "(string \<times> re) list \<Rightarrow> string \<Rightarrow> setting_rec" where
  "extract_setting_loop [] prompt = default_setting"
| "extract_setting_loop ((setting_type, pattern) # rest) prompt =
     (case re_search pattern prompt of
        Some m \<Rightarrow> setting_of_match setting_type m prompt
      | None \<Rightarrow> extract_setting_loop rest prompt)"

definition extract_setting :: "string \<Rightarrow> setting_rec" where
  "extract_setting prompt = extract_setting_loop settings prompt"

text \<open>\<^verbatim>\<open>r'\b(with|holding|carrying|near|beside)\s+(a|an|the)?\s*(\w+)\b'\<close>\<close>

definition prop_pattern :: re where
  "prop_pattern =
     Seq [Bnd,
          Grp 1 (Alt [Lit ''with'', Lit ''holding'', Lit ''carrying'', Lit ''near'',
                      Lit ''beside'']),
          Plus Space, Opt (Grp 2 (Alt [Lit ''a'', Lit ''an'', Lit ''the''])),
          Star Space, Grp 3 (Plus Word), Bnd]"

definition extract_objects :: "string \<Rightarrow> string option list" where
  "extract_objects prompt = map (\<lambda>m. group m 3) (re_finditer prop_pattern prompt)"

text \<open>The palette is the local list \<^verbatim>\<open>colors\<close> of \<^verbatim>\<open>extract_colors\<close>.\<close>

definition color_palette :: "string list" where
  "color_palette =
     [''red'', ''blue'', ''green'', ''yellow'', ''orange'', ''purple'', ''pink'', ''black'',
      ''white'', ''brown'', ''gray'', ''cyan'', ''magenta'', ''teal'', ''gold'', ''silver'']"

definition extract_colors :: "string \<Rightarrow> string list" where
  "extract_colors prompt = collect_found color_palette (py_lower prompt) []"

definition emotions :: "(string \<times> string list) list" where
  "emotions =
     [(''positive'', [''happy'', ''joyful'', ''excited'', ''proud'', ''confident'',
                      ''cheerful'', ''delighted'']),
      (''negative'', [''sad'', ''angry'', ''afraid'', ''worried'', ''frustrated'', ''tired'',
                      ''exhausted'', ''lonely'']),
      (''neutral'', [''calm'', ''peaceful'', ''focused'', ''curious'', ''contemplative''])]"

definition default_mood :: mood_rec where
  "default_mood = \<lparr>m_emotion = None, m_valence = ''neutral'', m_intensity = ''medium''\<rparr>"

definition mood_of_emotion :: "string \<Rightarrow> string \<Rightarrow> string \<Rightarrow> mood_rec" where
  "mood_of_emotion emotion valence prompt =
     (let intensity =
            (if str_in ''very'' (py_lower prompt) \<or> str_in ''extremely'' (py_lower prompt)
             then ''high''
             else if str_in ''slightly'' (py_lower prompt) \<or> str_in ''a bit'' (py_lower prompt)
             then ''low''
             else ''medium'')
      in \<lparr>m_emotion = Some emotion, m_valence = valence, m_intensity = intensity\<rparr>)"

fun extract_mood_loop :: "(string \<times> string list) list \<Rightarrow> string \<Rightarrow> mood_rec" where
  "extract_mood_loop [] prompt = default_mood"
| "extract_mood_loop ((valence, emotion_list) # rest) prompt =
     (case find (\<lambda>emotion. str_in emotion (py_lower prompt)) emotion_list of
        Some emotion \<Rightarrow> mood_of_emotion emotion valence prompt
      | None \<Rightarrow> extract_mood_loop rest prompt)"

definition extract_mood :: "string \<Rightarrow> mood_rec" where
  "extract_mood prompt = extract_mood_loop emotions prompt"

definition parse_prompt_components ::
  "string \<Rightarrow> transformation_maps \<Rightarrow> error + component_set" where
  "parse_prompt_components prompt maps =
     bind_err (extract_subject prompt maps)
       (\<lambda>subj. Inr \<lparr>c_subject = subj,
                     c_action = extract_action prompt,
                     c_setting = extract_setting prompt,
                     c_objects = extract_objects prompt,
                     c_colors = extract_colors prompt,
                     c_mood = extract_mood prompt,
                     c_semantic_weights = None\<rparr>)"

section \<open>Rule tables, style parameters and prompt values\<close>

text \<open>
  A rule table is read with \<^verbatim>\<open>.get(key, default)\<close> throughout. A scalar entry that may
  be missing is an option and the default is applied where the source applies it; for a
  list or a dictionary the default is the empty one, which the source never tells from a
  missing key, so such fields are plain lists.
\<close>

record subject_rule =
  sr_treatment :: "string option"
  sr_features :: "string list"
  sr_attributes :: "string list"

record action_rule =
  ar_treatment :: "string option"
  ar_features :: "string list"
  ar_effects :: "string list"

record setting_rule =
  tr_treatment :: "string option"
  tr_elements :: "string option"
  tr_background :: "string option"

record color_rules_rec =
  cr_mappings :: "(string, string) dict"
  cr_always_add :: "string option"
  cr_saturation :: "string option"
  cr_gradients :: "bool option"
  cr_max_colors :: "int option"
  cr_default_palette :: "string option"

text \<open>
  One entry of \<^verbatim>\<open>CATEGORIES\<close>, with the keys the transformation and assembly read. The
  descriptive keys (description, visual DNA, ideal subjects, moods, trigger keywords,
  intention) are read by the listing and suggestion tools only.
\<close>

record rules =
  r_name :: "string option"
  r_subject_rules :: "(string, subject_rule) dict"
  r_action_rules :: "(string, action_rule) dict"
  r_setting_rules :: "(string, setting_rule) dict"
  r_color_rules :: color_rules_rec
  r_mandatory_markers :: "string list"
  r_negative_prompts :: "string list"

text \<open>
  A style-parameter bundle. The numbers are the decimal literals of the source, read as
  reals; every comparison in the source is between such literals.
\<close>

record params =
  p_name :: "string option"
  p_energy_level :: "real option"
  p_color_saturation :: "string option"
  p_composition_density :: "real option"
  p_era :: "string option"

definition empty_params :: params where
  "empty_params =
     \<lparr>p_name = None, p_energy_level = None, p_color_saturation = None,
      p_composition_density = None, p_era = None\<rparr>"

text \<open>
  The values a transformed component or a section can hold: a string, the list of style
  markers, or \<^verbatim>\<open>None\<close> (the typography of a category without on-box text).
\<close>

datatype pyval = Str string | StrList "string list" | NoneVal

fun truthy_val :: "pyval \<Rightarrow> bool" where
  "truthy_val (Str s) = (s \<noteq> [])"
| "truthy_val (StrList l) = (l \<noteq> [])"
| "truthy_val NoneVal = False"

text \<open>
  \<^verbatim>\<open>repr\<close> of a string, as it appears inside \<^verbatim>\<open>str(list)\<close>: double quotes when the
  string has a single quote and no double quote, single quotes otherwise; the quote in
  use and the backslash are escaped, control characters are written as escapes.
\<close>

definition hex2 :: "nat \<Rightarrow> string" where
  "hex2 n = [''0123456789abcdef'' ! ((n div 16) mod 16), ''0123456789abcdef'' ! (n mod 16)]"

definition repr_char :: "char \<Rightarrow> char \<Rightarrow> string" where
  "repr_char q c =
     (if c = q \<or> c = CHR 0x5C then [CHR 0x5C, c]
      else if c = CHR 0x09 then [CHR 0x5C, CHR ''t'']
      else if c = CHR 0x0A then [CHR 0x5C, CHR ''n'']
      else if c = CHR 0x0D then [CHR 0x5C, CHR ''r'']
      else if (of_char c :: nat) < 32 \<or> c = CHR 0x7F
      then [CHR 0x5C, CHR ''x''] @ hex2 (of_char c)
      else [c])"

definition py_repr :: "string \<Rightarrow> string" where
  "py_repr s =
     (let q = (if CHR 0x27 \<in> set s \<and> CHR 0x22 \<notin> set s then CHR 0x22 else CHR 0x27)
      in [q] @ concat (map (repr_char q) s) @ [q])"

fun py_str :: "pyval \<Rightarrow> string" where
  "py_str (Str s) = s"
| "py_str (StrList l) = ''['' @ py_join '', '' (map py_repr l) @ '']''"
| "py_str NoneVal = ''None''"

section \<open>\<^verbatim>\<open>tools/utils.py\<close>\<close>

text \<open>
  The weights are computed in floating point, \<^verbatim>\<open>int((weights[key] / total) * 100)\<close>.
  The raw scores are sums of the constants 40, 30, 15, 10, 5 and the bonus 10, so there
  are finitely many pairs of a score and a total; on each of them the double-precision
  result, truncated, is the integer quotient \<open>(w * 100) div total\<close> that the model
  computes.
\<close>

definition raw_weights :: "component_set \<Rightarrow> (string, int) dict" where
  "raw_weights components =
     (let subj = c_subject components; act = c_action components; sett = c_setting components;
          w_subject = (if truthy (s_name subj) then 40 else 0);
          w_action = (if truthy (a_verb act) then 30 else 0);
          w_setting = (if truthy (st_location sett) then 15 else 0);
          w_objects = (if c_objects components \<noteq> [] then 10 else 0);
          w_colors = 0;
          w_mood = (if truthy (m_emotion (c_mood components)) then 5 else 0);
          w_subject = (if 1 < length (s_attributes subj) \<or> truthy (s_profession subj)
                       then w_subject + 10 else w_subject);
          w_action = (if a_energy_level act \<in> set [''high'', ''extreme'']
                      then w_action + 10 else w_action);
          w_setting = (if endswith (st_type sett) ''_specific''
                       then w_setting + 10 else w_setting)
      in [(''subject'', w_subject), (''action'', w_action), (''setting'', w_setting),
          (''objects'', w_objects), (''colors'', w_colors), (''mood'', w_mood)])"

definition calculate_semantic_weights :: "component_set \<Rightarrow> (string, int) dict" where
  "calculate_semantic_weights components =
     (let weights = raw_weights components;
          total = sum_list (dict_values weights)
      in if 0 < total then map (\<lambda>(key, w). (key, (w * 100) div total)) weights
         else weights)"

fun order_emphasis ::
  "string list \<Rightarrow> (string, pyval) dict \<Rightarrow> (string, pyval) dict \<Rightarrow> (string, pyval) dict" where
  "order_emphasis [] components ordered = ordered"
| "order_emphasis (key # rest) components ordered =
     order_emphasis rest components
       (case dict_get components key of
          Some v \<Rightarrow> (if truthy_val v then dict_set ordered key v else ordered)
        | None \<Rightarrow> ordered)"

fun order_remaining ::
  "(string \<times> pyval) list \<Rightarrow> (string, pyval) dict \<Rightarrow> (string, pyval) dict" where
  "order_remaining [] ordered = ordered"
| "order_remaining ((key, v) # rest) ordered =
     order_remaining rest
       (if \<not> has_key ordered key \<and> truthy_val v then dict_set ordered key v else ordered)"

definition order_by_importance ::
  "(string, pyval) dict \<Rightarrow> (string, int) dict \<Rightarrow> string list \<Rightarrow> (string, pyval) dict" where
  "order_by_importance components semantic_weights emphasis_order =
     order_remaining components (order_emphasis emphasis_order components [])"

definition universal :: "string list" where
  "universal =
     [''blurry'', ''low quality'', ''distorted'', ''deformed'', ''watermark'',
      ''text overlay'', ''signature'', ''cropped'', ''out of frame'']"

definition generate_negative_prompt :: "string \<Rightarrow> (string, rules) dict \<Rightarrow> string" where
  "generate_negative_prompt category categories =
     (let category_negatives = (case dict_get categories category of
                                  Some r \<Rightarrow> r_negative_prompts r | None \<Rightarrow> []);
          all_negatives = universal @ category_negatives
      in py_join '', '' all_negatives)"

section \<open>\<^verbatim>\<open>tools/transformer.py\<close>\<close>

text \<open>
  \<^verbatim>\<open>', '.join(parts)\<close> where a part may be \<^verbatim>\<open>None\<close> (the name of a subject that was not
  found): \<^verbatim>\<open>join\<close> raises on the first part that is no string.
\<close>

definition join_parts :: "string option list \<Rightarrow> error + string" where
  "join_parts parts =
     (if list_all (\<lambda>p. p \<noteq> None) parts
      then Inr (py_join '', '' (map str_opt parts))
      else Inl TypeError)"

definition attribute_phrase :: "(string, string) dict \<Rightarrow> string option \<Rightarrow> string" where
  "attribute_phrase emotion_map attr =
     (case attr of
        None \<Rightarrow> str_opt attr @ '' appearance''
      | Some a \<Rightarrow> (case dict_get emotion_map a of
                     Some face \<Rightarrow> face
                   | None \<Rightarrow> a @ '' appearance''))"

definition transform_subject ::
  "subject_rec \<Rightarrow> rules \<Rightarrow> transformation_maps \<Rightarrow> params \<Rightarrow> error + string" where
  "transform_subject subject rules maps params =
     (let subject_type = s_type subject;
          subject_name = s_name subject
      in case dict_get (r_subject_rules rules) subject_type of
           None \<Rightarrow> Inr (str_opt subject_name)
         | Some subject_rule \<Rightarrow>
             (let treatment = (case sr_treatment subject_rule of
                                 Some t \<Rightarrow> t | None \<Rightarrow> ''standard'');
                  features = sr_features subject_rule;
                  attributes = sr_attributes subject_rule;
                  parts = [Some (py_replace ''_'' '' '' treatment), subject_name];
                  parts = parts @
                    (case s_profession subject of
                       None \<Rightarrow> []
                     | Some profession \<Rightarrow>
                         (if profession = [] then []
                          else (case dict_get (profession_to_icon_props maps) profession of
                                  Some props \<Rightarrow> [Some (''with '' @ props)]
                                | None \<Rightarrow> [])));
                  parts = parts @ map Some features;
                  parts = parts @ map Some attributes;
                  parts = parts @
                    map (\<lambda>attr. Some (attribute_phrase (emotion_to_mascot_face maps) attr))
                      (s_attributes subject)
              in join_parts parts))"

definition transform_action ::
  "action_rec \<Rightarrow> rules \<Rightarrow> transformation_maps \<Rightarrow> params \<Rightarrow> error + string" where
  "transform_action action rules maps params =
     (case a_verb action of
        None \<Rightarrow> Inr ''in neutral pose''
      | Some verb \<Rightarrow>
          (if verb = [] then Inr ''in neutral pose''
           else
             (let energy_level = a_energy_level action;
                  action_rules = r_action_rules rules;
                  energy_level = (if \<not> has_key action_rules energy_level
                                  then ''low_energy'' else energy_level)
              in case dict_get action_rules energy_level of
                   None \<Rightarrow> Inl (KeyError energy_level)
                 | Some action_rule \<Rightarrow>
                     (let treatment = (case ar_treatment action_rule of
                                         Some t \<Rightarrow> t | None \<Rightarrow> []);
                          features = ar_features action_rule;
                          effects = ar_effects action_rule;
                          energy_multiplier = (case p_energy_level params of
                                                 Some e \<Rightarrow> e | None \<Rightarrow> 1.0);
                          effects = (if 1.0 < energy_multiplier \<and> effects \<noteq> []
                                     then map (\<lambda>e. e @ '' intensified'') effects
                                     else effects);
                          parts = [verb @ '' with '' @ treatment];
                          parts = parts @ features;
                          parts = parts @
                            (case a_object action of
                               None \<Rightarrow> []
                             | Some obj \<Rightarrow>
                                 (if obj = [] then []
                                  else
                                    (let category = (case r_name rules of
                                                       Some n \<Rightarrow> n | None \<Rightarrow> [])
                                     in if str_in ''mascot'' category
                                           \<or> str_in ''kid_chaos'' category
                                        then [''with comically oversized '' @ obj]
                                        else [''with '' @ obj])));
                          parts = parts @
                            (if effects \<noteq> [] then [py_join '', '' effects] else [])
                      in Inr (py_join '', '' parts)))))"

definition transform_setting :: "setting_rec \<Rightarrow> rules \<Rightarrow> params \<Rightarrow> string" where
  "transform_setting setting rules params =
     (let setting_type = st_type setting;
          location = st_location setting;
          setting_rules = r_setting_rules rules;
          rule_key = setting_type;
          rule_key = (if \<not> has_key setting_rules rule_key
                      then (if str_in ''indoor'' setting_type then ''indoor''
                            else if str_in ''outdoor'' setting_type then ''outdoor''
                            else ''abstract'')
                      else rule_key)
      in case dict_get setting_rules rule_key of
           None \<Rightarrow> str_opt location @ '' background''
         | Some setting_rule \<Rightarrow>
             (let treatment = (case tr_treatment setting_rule of
                                 Some t \<Rightarrow> t | None \<Rightarrow> []);
                  elements = (case tr_elements setting_rule of
                                Some e \<Rightarrow> e | None \<Rightarrow> []);
                  background = (case tr_background setting_rule of
                                  Some b \<Rightarrow> b | None \<Rightarrow> []);
                  parts = [str_opt location @ '' '' @ treatment];
                  parts = parts @ (if elements \<noteq> [] then [''with '' @ elements] else []);
                  parts = parts @ (if background \<noteq> [] then [background] else []);
                  parts = parts @
                    (case st_time setting of
                       None \<Rightarrow> []
                     | Some time \<Rightarrow> (if time = [] then [] else [''at '' @ time]))
              in py_join '', '' parts))"

text \<open>
  The values of a color-mapping table are strings in every table of the source; both
  branches of the \<^verbatim>\<open>isinstance\<close> test append the mapped value as it is.
\<close>

definition transform_colors :: "string list \<Rightarrow> rules \<Rightarrow> params \<Rightarrow> string" where
  "transform_colors colors rules params =
     (let color_rules = r_color_rules rules;
          mappings = cr_mappings color_rules;
          saturation = (case p_color_saturation params of
                          Some s \<Rightarrow> s
                        | None \<Rightarrow> (case cr_saturation color_rules of
                                     Some s \<Rightarrow> s | None \<Rightarrow> ''medium''))
      in if colors = []
         then (let dflt = (case cr_default_palette color_rules of
                             Some d \<Rightarrow> d | None \<Rightarrow> ''natural balanced colors'')
               in dflt @ '', '' @ saturation @ '' saturation'')
         else
           (let transformed = map (\<lambda>color. case dict_get mappings color of
                                              Some m \<Rightarrow> m | None \<Rightarrow> color) colors;
                transformed = (if cr_always_add color_rules = Some ''complementary accent color''
                               then transformed @ [''with complementary accent'']
                               else transformed);
                palette_desc = py_join '', '' (take 3 transformed);
                result = [''color palette of '' @ palette_desc];
                result = result @ [saturation @ '' saturation''];
                result = result @
                  (if \<not> (case cr_gradients color_rules of Some g \<Rightarrow> g | None \<Rightarrow> True)
                   then [''flat colors with no gradients''] else []);
                result = result @
                  (case cr_max_colors color_rules of
                     None \<Rightarrow> []
                   | Some max_colors \<Rightarrow>
                       (if max_colors = 0 then []
                        else [''limited to '' @ py_str_int max_colors @ '' colors maximum'']))
            in py_join '', '' result))"

definition effects_map :: "(string, string list) dict" where
  "effects_map =
     [(''mascot_theater'',
         [''white starburst highlights on curved surfaces'',
          ''radial sunburst background lines'',
          ''scattered floating sparkle effects'',
          ''thick drop shadows for depth'']),
      (''health_halo'',
         [''soft lens bokeh in background'',
          ''natural dust particles visible in light beam'',
          ''subtle vignette framing'',
          ''shallow depth of field'']),
      (''nostalgia_revival'',
         [''visible halftone dot pattern'',
          ''slight paper texture and grain'',
          ''intentional registration offset for vintage print feel'',
          ''limited spot color separation'']),
      (''premium_disruptor'',
         [''gold foil catching single light source'',
          ''extreme rim lighting creating halo'',
          ''selective focus with razor-thin depth of field'',
          ''dramatic shadows in 90% of composition'']),
      (''kid_chaos'',
         [''speed lines radiating from all edges'',
          ''explosive starburst effects in multiple neon colors'',
          ''lightning bolts and electricity crackling'',
          ''holographic rainbow gradient overlays'',
          ''motion blur trails showing energy'']),
      (''transparent_honest'',
         [''crisp sharp focus throughout with no artistic blur'',
          ''even clinical lighting eliminating shadows'',
          ''grid overlay with measurements visible'',
          ''labeled components and specifications'']),
      (''adventure_fantasy'',
         [''volumetric god rays breaking through atmosphere'',
          ''magical particle effects floating in air'',
          ''dramatic rim lighting with colored gels'',
          ''ethereal glow on mystical elements'',
          ''cinematic lens flare''])]"

definition transform_effects :: "string \<Rightarrow> component_set \<Rightarrow> params \<Rightarrow> string" where
  "transform_effects category components params =
     (let effects = (case dict_get effects_map category of Some e \<Rightarrow> e | None \<Rightarrow> []);
          density = (case p_composition_density params of Some d \<Rightarrow> d | None \<Rightarrow> 0.7);
          effects = (if density < 0.5 then take 2 effects
                     else if 0.8 < density then effects
                     else take 3 effects)
      in py_join '', '' effects)"

text \<open>
  \<^verbatim>\<open>profession = subject.get('profession') or subject_name\<close>; each branch then calls
  \<^verbatim>\<open>profession.upper()\<close>, which raises when the subject has neither.
\<close>

definition transform_typography ::
  "subject_rec \<Rightarrow> string \<Rightarrow> params \<Rightarrow> error + string option" where
  "transform_typography subject category params =
     (let subject_name = s_name subject;
          profession = (if truthy (s_profession subject) then s_profession subject
                        else subject_name)
      in if category = ''mascot_theater''
         then (case profession of
                 None \<Rightarrow> Inl AttributeError
               | Some p \<Rightarrow>
                   (let text = py_upper p @ '' CRUNCH''
                    in Inr (Some (''bubbly curved typography spelling ''
                          @ [CHR 0x27] @ text @ [CHR 0x27]
                          @ '' arcing over scene, thick inline and outline effects''))))
         else if category = ''kid_chaos''
         then (case profession of
                 None \<Rightarrow> Inl AttributeError
               | Some p \<Rightarrow>
                   (let text = py_upper p @ '' BLAST''
                    in Inr (Some (''chrome metallic text spelling ''
                          @ [CHR 0x27] @ text @ [CHR 0x27]
                          @ '' with lightning bolt letters, extreme 3D extrusion, neon glow''))))
         else if category = ''nostalgia_revival''
         then (let era = (case p_era params of Some e \<Rightarrow> e | None \<Rightarrow> ''1970s'')
               in case profession of
                    None \<Rightarrow> Inl AttributeError
                  | Some p \<Rightarrow>
                      (let text = py_upper p @ '' - SINCE '' @ take 4 era
                       in Inr (Some (''hand-lettered '' @ era @ '' typography reading ''
                             @ [CHR 0x27] @ text @ [CHR 0x27]
                             @ '', distressed letterpress texture, slab serif style''))))
         else Inr None)"

text \<open>
  The dictionary display is evaluated entry by entry, so the first transformation that
  raises decides the error.
\<close>

definition apply_category_transformation ::
  "component_set \<Rightarrow> rules \<Rightarrow> transformation_maps \<Rightarrow> params \<Rightarrow> error + (string, pyval) dict"
  where
  "apply_category_transformation components rules transformation_maps params =
     (let category = (case r_name rules of Some n \<Rightarrow> n | None \<Rightarrow> ''unknown'')
      in bind_err (transform_subject (c_subject components) rules transformation_maps params)
           (\<lambda>subject.
         bind_err (transform_action (c_action components) rules transformation_maps params)
           (\<lambda>action.
         bind_err (if category \<in> set [''mascot_theater'', ''kid_chaos'', ''nostalgia_revival'']
                   then transform_typography (c_subject components) category params
                   else Inr None)
           (\<lambda>typography.
         Inr [(''subject'', Str subject),
              (''action'', Str action),
              (''setting'', Str (transform_setting (c_setting components) rules params)),
              (''colors'', Str (transform_colors (c_colors components) rules params)),
              (''effects'', Str (transform_effects category components params)),
              (''style_markers'', StrList (r_mandatory_markers rules)),
              (''typography'', (case typography of Some t \<Rightarrow> Str t | None \<Rightarrow> NoneVal))]))))"

section \<open>\<^verbatim>\<open>server.py\<close>: the rule catalog\<close>

text \<open>
  The tables that \<^verbatim>\<open>OlogLoader\<close> holds in its methods, each looked up by category name
  with the default the method gives.
\<close>

definition build_subject_rules :: "string \<Rightarrow> (string, subject_rule) dict" where
  "build_subject_rules category_name =
     (let rules_map =
        [(''mascot_theater'',
            [(''human'',
                \<lparr>sr_treatment = Some ''cartoon_mascot'',
                 sr_features = [''oversized head (1.5x proportion)'',
                                ''simplified 4-finger hands'', ''simplified anatomy'',
                                ''expressive eyes''],
                 sr_attributes = [''bold black outlines'', ''thick drop shadows'',
                                  ''white gloves optional'']\<rparr>),
             (''animal'',
                \<lparr>sr_treatment = Some ''anthropomorphized'',
                 sr_features = [''bipedal stance'', ''clothed'', ''expressive eyebrows'',
                                ''human-like gestures''],
                 sr_attributes = [''bold outlines'', ''simple rounded shapes'']\<rparr>),
             (''object'',
                \<lparr>sr_treatment = Some ''personified'',
                 sr_features = [''add face with googly eyes'', ''add limbs and hands'',
                                ''personality expression''],
                 sr_attributes = [''friendly smile or expression'']\<rparr>)]),
         (''health_halo'',
            [(''human'',
                \<lparr>sr_treatment = Some ''hands_only_or_silhouette'',
                 sr_features = [''cropped to hands in close-up'', ''partial face in shadow'',
                                ''no identifying features'', ''focus on capable gestures''],
                 sr_attributes = [''natural skin tones'', ''minimal styling'',
                                  ''authentic presence'']\<rparr>),
             (''animal'',
                \<lparr>sr_treatment = Some ''naturalistic'',
                 sr_features = [''documentary photography style'', ''natural behavior'',
                                ''real environment''],
                 sr_attributes = [''soft focus background'', ''natural colors'']\<rparr>),
             (''object'',
                \<lparr>sr_treatment = Some ''deconstructed_materials'',
                 sr_features = [''shown as raw materials'', ''ingredient stage'',
                                ''component parts visible''],
                 sr_attributes = [''texture visible'', ''natural finish'',
                                  ''organized flat-lay arrangement'']\<rparr>)])]
      in case dict_get rules_map category_name of Some r \<Rightarrow> r | None \<Rightarrow> [])"

definition base_actions :: "(string, action_rule) dict" where
  "base_actions =
     [(''low_energy'', \<lparr>ar_treatment = None, ar_features = [], ar_effects = []\<rparr>),
      (''medium_energy'', \<lparr>ar_treatment = None, ar_features = [], ar_effects = []\<rparr>),
      (''high_energy'', \<lparr>ar_treatment = None, ar_features = [], ar_effects = []\<rparr>)]"

definition build_action_rules :: "string \<Rightarrow> (string, action_rule) dict" where
  "build_action_rules category_name =
     (let action_map =
        [(''mascot_theater'',
            [(''low_energy'',
                \<lparr>ar_treatment = Some ''friendly gesture'',
                 ar_features = [''static pose'', ''one hand waving or pointing'',
                                ''welcoming stance''],
                 ar_effects = [''small sparkles'', ''simple motion line'']\<rparr>),
             (''medium_energy'',
                \<lparr>ar_treatment = Some ''animated motion'',
                 ar_features = [''leaning into action'', ''arms in motion'',
                                ''one foot slightly raised''],
                 ar_effects = [''motion lines'', ''small starbursts'', ''action swooshes'']\<rparr>),
             (''high_energy'',
                \<lparr>ar_treatment = Some ''dynamic mid-action'',
                 ar_features = [''mid-leap or jump'', ''one foot always off ground'',
                                ''arms spread wide'', ''hair/clothing flowing''],
                 ar_effects = [''speed lines'', ''motion blur trail'', ''dust clouds'',
                               ''large starbursts'', ''impact marks'']\<rparr>)])]
      in case dict_get action_map category_name of Some r \<Rightarrow> r | None \<Rightarrow> base_actions)"

definition build_setting_rules :: "string \<Rightarrow> (string, setting_rule) dict" where
  "build_setting_rules category_name =
     (let setting_map =
        [(''mascot_theater'',
            [(''indoor'',
                \<lparr>tr_treatment = Some ''simplified_icons'',
                 tr_elements = Some ''2-3 key objects only'',
                 tr_background = Some ''flat solid color with no detail''\<rparr>),
             (''outdoor'',
                \<lparr>tr_treatment = Some ''generic_simple'',
                 tr_elements = Some
                   ''blue sky, white puffy clouds, green ground line, simple curved hills'',
                 tr_background = Some ''no texture, basic shapes''\<rparr>),
             (''abstract'',
                \<lparr>tr_treatment = Some ''radial_sunburst'',
                 tr_elements = Some ''concentric circles or radiating lines'',
                 tr_background = Some ''bright primary color''\<rparr>)])]
      in case dict_get setting_map category_name of Some r \<Rightarrow> r | None \<Rightarrow> [])"

definition empty_color_rules :: color_rules_rec where
  "empty_color_rules =
     \<lparr>cr_mappings = [], cr_always_add = None, cr_saturation = None, cr_gradients = None,
      cr_max_colors = None, cr_default_palette = None\<rparr>"

definition build_color_rules :: "string \<Rightarrow> color_rules_rec" where
  "build_color_rules category_name =
     (let color_map =
        [(''mascot_theater'',
            \<lparr>cr_mappings =
               [(''blue'', ''bright primary blue''), (''red'', ''cherry red''),
                (''green'', ''lime green''), (''yellow'', ''sunshine yellow''),
                (''purple'', ''grape purple''), (''orange'', ''bright orange''),
                (''pink'', ''bubblegum pink'')],
             cr_always_add = Some ''complementary accent color'',
             cr_saturation = Some ''maximum'',
             cr_gradients = Some False,
             cr_max_colors = Some 4,
             cr_default_palette = Some ''bright primary colors (red, blue, yellow)''\<rparr>)]
      in case dict_get color_map category_name of
           Some r \<Rightarrow> r | None \<Rightarrow> empty_color_rules)"

definition extract_mandatory_markers :: "string \<Rightarrow> string list" where
  "extract_mandatory_markers category_name =
     (let mapping =
        [(''mascot_theater'',
            [''cartoon character'', ''bold black outlines'',
             ''commercial illustration style'', ''bright primary colors'']),
         (''health_halo'',
            [''natural palette'', ''clean composition'', ''matte finish aesthetic'',
             ''soft natural lighting''])]
      in case dict_get mapping category_name of Some r \<Rightarrow> r | None \<Rightarrow> [])"

definition extract_negative_prompts :: "string \<Rightarrow> string list" where
  "extract_negative_prompts category_name =
     (let mapping =
        [(''mascot_theater'',
            [''realistic'', ''photographic'', ''detailed anatomy'', ''complex shading'',
             ''gradient backgrounds'', ''violent'', ''dark'', ''gritty'']),
         (''health_halo'',
            [''cartoon'', ''bright neon colors'', ''artificial'', ''cluttered'',
             ''dramatic lighting'', ''busy background''])]
      in case dict_get mapping category_name of Some r \<Rightarrow> r | None \<Rightarrow> [])"

definition build_category_structure :: "string \<Rightarrow> rules" where
  "build_category_structure category_name =
     \<lparr>r_name = Some category_name,
      r_subject_rules = build_subject_rules category_name,
      r_action_rules = build_action_rules category_name,
      r_setting_rules = build_setting_rules category_name,
      r_color_rules = build_color_rules category_name,
      r_mandatory_markers = extract_mandatory_markers category_name,
      r_negative_prompts = extract_negative_prompts category_name\<rparr>"

text \<open>
  \<^verbatim>\<open>get_categories\<close> builds one entry for each category instance that the aesthetic olog
  lists. The olog is a data file outside the sources, so the list is a parameter.
\<close>

definition get_categories :: "string list \<Rightarrow> (string, rules) dict" where
  "get_categories instances =
     fold (\<lambda>category_name categories.
             dict_set categories category_name (build_category_structure category_name))
       instances []"

definition get_transformation_maps :: transformation_maps where
  "get_transformation_maps =
     \<lparr>profession_to_icon_props =
        [(''chef'', ''oversized white chef hat and red neckerchief''),
         (''firefighter'', ''bright yellow helmet with red suspenders''),
         (''doctor'', ''white coat and stethoscope around neck'')],
      emotion_to_mascot_face =
        [(''happy'', ''wide smile with sparkles in eyes, cheeks raised in joy''),
         (''sad'', ''single large tear drop, downturned mouth with slight frown'')],
      location_to_fantasy =
        [(''kitchen'',
          ''alchemist's laboratory with bubbling cauldrons and mystical ingredients'')]\<rparr>"

record template =
  t_emphasis_order :: "string list"
  t_structure :: string

text \<open>The arrow of the structure strings is U+2192, three bytes in UTF-8.\<close>

definition arrow :: string where
  "arrow = [CHR '' '', CHR 0xE2, CHR 0x86, CHR 0x92, CHR '' '']"

definition template_map :: "(string, template) dict" where
  "template_map =
     [(''mascot_theater'',
         \<lparr>t_emphasis_order = [''subject'', ''action'', ''effects'', ''setting'', ''colors'',
                              ''typography'', ''style_markers''],
          t_structure = ''Subject'' @ arrow @ ''Action'' @ arrow @ ''Setting'' @ arrow
                      @ ''Colors'' @ arrow @ ''Effects'' @ arrow @ ''Typography'' @ arrow
                      @ ''Style Markers''\<rparr>)]"

text \<open>
  \<^verbatim>\<open>get_templates\<close> with the loader's cache as explicit state: the argument is
  \<^verbatim>\<open>self.templates_cache\<close> before the call, the result is the value returned and the
  cache after the call. A filled cache is returned; otherwise the method stores
  \<^verbatim>\<open>template_map\<close> in the cache and returns its local \<^verbatim>\<open>templates\<close>, which is still the
  empty dictionary.
\<close>

definition get_templates ::
  "(string, template) dict option \<Rightarrow> (string, template) dict \<times> (string, template) dict option"
  where
  "get_templates templates_cache =
     (case templates_cache of
        Some cache \<Rightarrow>
          (if cache \<noteq> [] then (cache, Some cache) else ([], Some template_map))
      | None \<Rightarrow> ([], Some template_map))"

text \<open>
  The module-level tables the tools read. They are bound once when the module is loaded
  (from the loader, or from the legacy JSON files when the loader fails) and never
  assigned again.
\<close>

record world =
  CATEGORIES :: "(string, rules) dict"
  TRANSFORMATION_MAPS :: transformation_maps
  TEMPLATES :: "(string, template) dict"

text \<open>The binding that the loader path makes, for a given list of category instances.\<close>

definition loader_world :: "string list \<Rightarrow> world" where
  "loader_world instances =
     \<lparr>CATEGORIES = get_categories instances,
      TRANSFORMATION_MAPS = get_transformation_maps,
      TEMPLATES = fst (get_templates None)\<rparr>"

text \<open>
  Modelled from the spec: the seven category names. The source reads them from the
  olog data file, which is not among the sources; the spec fixes their number and the
  test-suite of the package asserts exactly these keys.
\<close>

definition category_instances :: "string list" where
  "category_instances =
     [''mascot_theater'', ''health_halo'', ''nostalgia_revival'', ''premium_disruptor'',
      ''kid_chaos'', ''transparent_honest'', ''adventure_fantasy'']"

section \<open>\<^verbatim>\<open>server.py\<close>: the tools\<close>

record metadata =
  md_category :: string
  estimated_tokens :: int
  ready_for_synthesis :: bool
  user_modifications :: "string list option"

record skeleton =
  sections :: "(string, pyval) dict"
  emphasis :: "(string, real) dict"
  sk_template :: template
  negative_prompt :: string
  sk_metadata :: metadata

record variant =
  v_name :: string
  v_style_params :: params
  v_skeleton :: skeleton

definition parse_prompt :: "world \<Rightarrow> string \<Rightarrow> error + component_set" where
  "parse_prompt w user_prompt =
     bind_err (parse_prompt_components user_prompt (TRANSFORMATION_MAPS w))
       (\<lambda>components.
          Inr (components\<lparr>c_semantic_weights :=
                             Some (calculate_semantic_weights components)\<rparr>))"

text \<open>\<^verbatim>\<open>style_params or {}\<close>: no bundle is the empty bundle.\<close>

definition apply_transformations ::
  "world \<Rightarrow> component_set \<Rightarrow> string \<Rightarrow> params option \<Rightarrow> error + (string, pyval) dict" where
  "apply_transformations w parsed_components category style_params =
     (case dict_get (CATEGORIES w) category of
        None \<Rightarrow> Inl (UnknownCategory category)
      | Some rules \<Rightarrow>
          (let params = (case style_params of Some p \<Rightarrow> p | None \<Rightarrow> empty_params)
           in apply_category_transformation parsed_components rules
                (TRANSFORMATION_MAPS w) params))"

text \<open>The multiplier that the loop of \<^verbatim>\<open>build_prompt_skeleton\<close> stores for one weight.\<close>

definition emphasis_of :: "int \<Rightarrow> real" where
  "emphasis_of weight =
     (if 60 < weight then 1.3
      else if 40 < weight then 1.15
      else if 20 < weight then 1.0
      else 0.85)"

fun emphasis_loop :: "(string \<times> int) list \<Rightarrow> (string, real) dict \<Rightarrow> (string, real) dict" where
  "emphasis_loop [] emph = emph"
| "emphasis_loop ((component, weight) # rest) emph =
     emphasis_loop rest (dict_set emph component (emphasis_of weight))"

text \<open>\<^verbatim>\<open>sum(len(str(v)) for v in sections.values()) // 4\<close>\<close>

definition token_estimate :: "(string, pyval) dict \<Rightarrow> int" where
  "token_estimate secs =
     int (sum_list (map (\<lambda>v. length (py_str v)) (dict_values secs))) div 4"

definition build_prompt_skeleton ::
  "world \<Rightarrow> (string, pyval) dict \<Rightarrow> string \<Rightarrow> (string, int) dict \<Rightarrow> error + skeleton" where
  "build_prompt_skeleton w transformed_components category semantic_weights =
     (case dict_get (TEMPLATES w) category of
        None \<Rightarrow> Inl (KeyError category)
      | Some template \<Rightarrow>
          (let ordered_sections =
                 order_by_importance transformed_components semantic_weights
                   (t_emphasis_order template);
               emphasis = emphasis_loop semantic_weights [];
               negative = generate_negative_prompt category (CATEGORIES w);
               estimated_tokens = token_estimate ordered_sections
           in Inr \<lparr>sections = ordered_sections,
                   emphasis = emphasis,
                   sk_template = template,
                   negative_prompt = negative,
                   sk_metadata = \<lparr>md_category = category,
                                  estimated_tokens = estimated_tokens,
                                  ready_for_synthesis = True,
                                  user_modifications = None\<rparr>\<rparr>))"

text \<open>
  \<^verbatim>\<open>refine_component\<close> changes the skeleton it is given in place and returns that same
  object. The model returns a pair: what the call returns or raises, and the caller's
  skeleton after the call.
\<close>

definition refine_component ::
  "skeleton \<Rightarrow> string \<Rightarrow> string \<Rightarrow> (error + skeleton) \<times> skeleton" where
  "refine_component sk component_name new_value =
     (if \<not> has_key (sections sk) component_name
      then (Inl (UnknownComponent component_name (keys (sections sk))), sk)
      else
        (let secs = dict_set (sections sk) component_name (Str new_value);
             md = sk_metadata sk;
             mods = (case user_modifications md of None \<Rightarrow> [] | Some l \<Rightarrow> l);
             md = md\<lparr>user_modifications := Some (mods @ [component_name])\<rparr>;
             md = md\<lparr>estimated_tokens := token_estimate secs\<rparr>;
             sk' = sk\<lparr>sections := secs, sk_metadata := md\<rparr>
         in (Inr sk', sk')))"

definition param_sets :: "params list" where
  "param_sets =
     [\<lparr>p_name = Some ''Subtle'', p_energy_level = Some 0.5,
       p_color_saturation = Some ''pastel'', p_composition_density = Some 0.4,
       p_era = None\<rparr>,
      \<lparr>p_name = Some ''Balanced'', p_energy_level = Some 0.75,
       p_color_saturation = Some ''bright'', p_composition_density = Some 0.7,
       p_era = None\<rparr>,
      \<lparr>p_name = Some ''Intense'', p_energy_level = Some 1.0,
       p_color_saturation = Some ''neon'', p_composition_density = Some 1.0,
       p_era = None\<rparr>,
      \<lparr>p_name = Some ''Vintage'', p_energy_level = Some 0.6,
       p_color_saturation = Some ''muted'', p_composition_density = Some 0.5,
       p_era = Some ''1970s''\<rparr>,
      \<lparr>p_name = Some ''Dramatic'', p_energy_level = Some 0.9,
       p_color_saturation = Some ''bold'', p_composition_density = Some 0.8,
       p_era = None\<rparr>]"

text \<open>
  One round of the loop of \<^verbatim>\<open>generate_variants\<close>, for the preset at index \<open>i\<close>. The
  arguments of \<^verbatim>\<open>build_prompt_skeleton\<close> are evaluated before the call, so a missing
  \<^verbatim>\<open>'semantic_weights'\<close> key is reported before a missing template.
\<close>

definition make_variant ::
  "world \<Rightarrow> component_set \<Rightarrow> string \<Rightarrow> nat \<Rightarrow> params \<Rightarrow> error + variant" where
  "make_variant w parsed_components category i params =
     bind_err (apply_transformations w parsed_components category (Some params))
       (\<lambda>transformed.
     bind_err (case c_semantic_weights parsed_components of
                 None \<Rightarrow> Inl (KeyError ''semantic_weights'')
               | Some ws \<Rightarrow> Inr ws)
       (\<lambda>weights.
     bind_err (build_prompt_skeleton w transformed category weights)
       (\<lambda>skeleton.
     bind_err (case p_name params of None \<Rightarrow> Inl (KeyError ''name'') | Some n \<Rightarrow> Inr n)
       (\<lambda>name.
     Inr \<lparr>v_name = ''Variant '' @ py_str_int (int i + 1) @ '' ('' @ name @ '')'',
          v_style_params = params,
          v_skeleton = skeleton\<rparr>))))"

fun variants_loop ::
  "world \<Rightarrow> component_set \<Rightarrow> string \<Rightarrow> nat \<Rightarrow> params list \<Rightarrow> variant list
   \<Rightarrow> error + variant list" where
  "variants_loop w parsed_components category i [] variants = Inr variants"
| "variants_loop w parsed_components category i (params # rest) variants =
     bind_err (make_variant w parsed_components category i params)
       (\<lambda>v. variants_loop w parsed_components category (Suc i) rest (variants @ [v]))"

definition generate_variants ::
  "world \<Rightarrow> component_set \<Rightarrow> string \<Rightarrow> int \<Rightarrow> error + variant list" where
  "generate_variants w parsed_components category count =
     (if count < 1 \<or> 5 < count then Inl InvalidCount
      else variants_loop w parsed_components category 0
             (take (nat count) param_sets) [])"

text \<open>
  The pipeline of the assembler: \<^verbatim>\<open>apply_transformations\<close>, then
  \<^verbatim>\<open>build_prompt_skeleton\<close> on its result.
\<close>

definition transform_then_assemble ::
  "world \<Rightarrow> component_set \<Rightarrow> string \<Rightarrow> params option \<Rightarrow> (string, int) dict
   \<Rightarrow> error + skeleton" where
  "transform_then_assemble w parsed_components category style_params semantic_weights =
     bind_err (apply_transformations w parsed_components category style_params)
       (\<lambda>transformed. build_prompt_skeleton w transformed category semantic_weights)"

text \<open>The keys of the dictionary that \<^verbatim>\<open>parse_prompt_components\<close> returns.\<close>

definition component_names :: "string list" where
  "component_names = [''subject'', ''action'', ''setting'', ''objects'', ''colors'', ''mood'']"

text \<open>
  A second call of \<^verbatim>\<open>get_templates\<close> returns the cache the first call filled. The
  world below binds \<^verbatim>\<open>TEMPLATES\<close> to that table; it serves as a module state in which
  a category has a template.
\<close>

definition cached_world :: "string list \<Rightarrow> world" where
  "cached_world instances =
     (loader_world instances)
       \<lparr>TEMPLATES := fst (get_templates (snd (get_templates None)))\<rparr>"

text \<open>A parsed prompt with a subject and a low-energy action, used as a concrete input.\<close>

definition example_components :: component_set where
  "example_components =
     \<lparr>c_subject = \<lparr>s_type = ''human'', s_name = Some ''person'', s_attributes = [Some ''a''],
                   s_profession = None, s_count = 1\<rparr>,
      c_action = \<lparr>a_verb = Some ''sitting'', a_energy_level = ''low'', a_object = None,
                  a_modifier = None, a_progressive = True\<rparr>,
      c_setting = default_setting,
      c_objects = [], c_colors = [], c_mood = default_mood,
      c_semantic_weights = None\<rparr>"

text \<open>A small skeleton, used as a concrete input.\<close>

definition example_skeleton :: skeleton where
  "example_skeleton =
     \<lparr>sections = [(''subject'', Str ''cartoon mascot, cat''),
                  (''style_markers'', StrList [''cartoon character'', ''bold outlines''])],
      emphasis = [(''subject'', 1.3)],
      sk_template = \<lparr>t_emphasis_order = [''subject''], t_structure = ''Subject''\<rparr>,
      negative_prompt = ''blurry'',
      sk_metadata = \<lparr>md_category = ''mascot_theater'', estimated_tokens = 14,
                     ready_for_synthesis = True, user_modifications = None\<rparr>\<rparr>"

text \<open>The example components with their weights stored, the way \<^verbatim>\<open>parse_prompt\<close> stores them.\<close>

definition example_parsed :: component_set where
  "example_parsed =
     example_components
       \<lparr>c_semantic_weights := Some (calculate_semantic_weights example_components)\<rparr>"

section \<open>Properties of the primitives\<close>

lemma str_in_iff: "str_in w s \<longleftrightarrow> (\<exists>pre post. s = pre @ w @ post)"
proof (induction s)
  case Nil
  then show ?case by auto
next
  case (Cons c s)
  have "startswith (c # s) w \<longleftrightarrow> (\<exists>post. c # s = w @ post)"
    unfolding startswith_def
    by (metis append_eq_conv_conj)
  moreover have "(\<exists>pre post. c # s = pre @ w @ post) \<longleftrightarrow>
                 (\<exists>post. c # s = w @ post) \<or> (\<exists>pre post. s = pre @ w @ post)"
  proof
    assume "\<exists>pre post. c # s = pre @ w @ post"
    then obtain pre post where e: "c # s = pre @ w @ post" by blast
    show "(\<exists>post. c # s = w @ post) \<or> (\<exists>pre post. s = pre @ w @ post)"
    proof (cases pre)
      case Nil
      with e show ?thesis by auto
    next
      case (Cons a pre')
      with e have "s = pre' @ w @ post" by simp
      then show ?thesis by blast
    qed
  next
    assume "(\<exists>post. c # s = w @ post) \<or> (\<exists>pre post. s = pre @ w @ post)"
    then show "\<exists>pre post. c # s = pre @ w @ post"
    proof
      assume "\<exists>post. c # s = w @ post"
      then obtain post where "c # s = [] @ w @ post" by auto
      then show ?thesis by blast
    next
      assume "\<exists>pre post. s = pre @ w @ post"
      then obtain pre post where "c # s = (c # pre) @ w @ post" by auto
      then show ?thesis by blast
    qed
  qed
  ultimately show ?case using Cons.IH by simp
qed

lemma collect_found_filter:
  "collect_found ws text found = found @ filter (\<lambda>w. str_in w text) ws"
  by (induction ws arbitrary: found) auto

subsection \<open>Dictionaries\<close>

lemma keys_dict_set_eq:
  "keys (dict_set d k v) = (if k \<in> set (keys d) then keys d else keys d @ [k])"
  by (induction d k v rule: dict_set.induct) (simp_all add: keys_def)

lemma keys_dict_set: "set (keys (dict_set d k v)) = insert k (set (keys d))"
  by (auto simp: keys_dict_set_eq)

lemma keys_dict_set_present: "has_key d k \<Longrightarrow> keys (dict_set d k v) = keys d"
  by (simp add: keys_dict_set_eq has_key_def)

lemma dict_get_dict_set:
  "dict_get (dict_set d k v) k' = (if k' = k then Some v else dict_get d k')"
  by (induction d k v rule: dict_set.induct) (auto simp: dict_get_def)

lemma dict_get_Some_key: "dict_get d k = Some v \<Longrightarrow> k \<in> set (keys d)"
  by (auto simp: dict_get_def keys_def dest: map_of_SomeD intro: rev_image_eqI)

lemma emphasis_loop_other:
  "c \<notin> set (keys ws) \<Longrightarrow> dict_get (emphasis_loop ws acc) c = dict_get acc c"
  by (induction ws arbitrary: acc) (auto simp: keys_def dict_get_dict_set)

lemma emphasis_loop_get:
  "distinct (keys ws) \<Longrightarrow> (c, wt) \<in> set ws \<Longrightarrow>
   dict_get (emphasis_loop ws acc) c = Some (emphasis_of wt)"
proof (induction ws arbitrary: acc)
  case Nil
  then show ?case by simp
next
  case (Cons p ws)
  obtain k w where p: "p = (k, w)" by (cases p)
  show ?case
  proof (cases "(c, wt) = (k, w)")
    case True
    then have "c \<notin> set (keys ws)" using Cons.prems(1) p by (simp add: keys_def)
    then show ?thesis using True p
      by (simp add: emphasis_loop_other dict_get_dict_set)
  next
    case False
    then have "(c, wt) \<in> set ws" using Cons.prems(2) p by auto
    moreover have "distinct (keys ws)" using Cons.prems(1) by (simp add: keys_def)
    ultimately show ?thesis using Cons.IH p by simp
  qed
qed

lemma keys_Cons: "keys ((k, v) # d) = k # keys d"
  by (simp add: keys_def)

lemma emphasis_loop_keys:
  "set (keys (emphasis_loop ws acc)) = set (keys acc) \<union> set (keys ws)"
proof (induction ws arbitrary: acc)
  case Nil
  then show ?case by (simp add: keys_def)
next
  case (Cons p ws)
  obtain k w where p: "p = (k, w)" by (cases p)
  show ?case unfolding p by (simp add: Cons.IH keys_dict_set keys_Cons)
qed

lemma order_emphasis_keys:
  "set (keys (order_emphasis es comps acc)) \<subseteq> set (keys acc) \<union> set (keys comps)"
proof (induction es arbitrary: acc)
  case Nil
  then show ?case by simp
next
  case (Cons e es)
  show ?case
  proof (cases "dict_get comps e")
    case None
    then show ?thesis using Cons.IH [of acc] by simp
  next
    case (Some v)
    then have "e \<in> set (keys comps)" by (rule dict_get_Some_key)
    then show ?thesis
      using Cons.IH [of acc] Cons.IH [of "dict_set acc e v"] Some
      by (auto simp: keys_dict_set)
  qed
qed

lemma order_remaining_keys:
  "set (keys (order_remaining xs acc)) \<subseteq> set (keys acc) \<union> set (keys xs)"
proof (induction xs arbitrary: acc)
  case Nil
  then show ?case by simp
next
  case (Cons p xs)
  obtain k v where p: "p = (k, v)" by (cases p)
  have "set (keys (order_remaining (p # xs) acc)) \<subseteq> set (keys acc) \<union> {k} \<union> set (keys xs)"
    using Cons.IH [of acc] Cons.IH [of "dict_set acc k v"]
    unfolding p by (auto simp: keys_dict_set)
  then show ?case unfolding p by (auto simp: keys_Cons)
qed

lemma order_by_importance_keys:
  "set (keys (order_by_importance comps ws es)) \<subseteq> set (keys comps)"
  using order_remaining_keys [of comps "order_emphasis es comps []"]
        order_emphasis_keys [of es comps "[]"]
  by (auto simp: order_by_importance_def keys_def)

text \<open>The dictionaries that the assembler builds have distinct keys.\<close>

lemma dict_set_distinct: "distinct (keys d) \<Longrightarrow> distinct (keys (dict_set d k v))"
  by (simp add: keys_dict_set_eq)

lemma emphasis_loop_distinct:
  "distinct (keys acc) \<Longrightarrow> distinct (keys (emphasis_loop ws acc))"
  by (induction ws arbitrary: acc) (auto simp: dict_set_distinct)

lemma order_emphasis_distinct:
  "distinct (keys acc) \<Longrightarrow> distinct (keys (order_emphasis es comps acc))"
  by (induction es arbitrary: acc) (auto simp: dict_set_distinct split: option.splits)

lemma order_remaining_distinct:
  "distinct (keys acc) \<Longrightarrow> distinct (keys (order_remaining xs acc))"
  by (induction xs arbitrary: acc) (auto simp: dict_set_distinct)

section \<open>The importance weighter\<close>

lemma raw_weights_shape:
  "\<exists>s a t ob m.
     raw_weights cs = [(''subject'', s), (''action'', a), (''setting'', t),
                       (''objects'', ob), (''colors'', 0), (''mood'', m)]
     \<and> 0 \<le> s \<and> 0 \<le> a \<and> 0 \<le> t \<and> 0 \<le> ob \<and> 0 \<le> m"
  unfolding raw_weights_def Let_def
  apply (intro exI conjI)
       apply (rule refl)
      apply simp_all
  done

lemma div_add_bounds:
  fixes a b c :: int
  assumes "0 < c"
  shows "a div c + b div c \<le> (a + b) div c \<and> (a + b) div c \<le> a div c + b div c + 1"
proof -
  have e: "(a + b) div c = a div c + b div c + (a mod c + b mod c) div c"
    by (rule div_add1_eq)
  have m: "0 \<le> a mod c + b mod c" "a mod c + b mod c < 2 * c"
    using assms pos_mod_sign [of c a] pos_mod_sign [of c b]
          pos_mod_bound [of c a] pos_mod_bound [of c b] by linarith+
  have lo: "0 \<le> (a mod c + b mod c) div c"
    using assms m(1) by (simp add: pos_imp_zdiv_nonneg_iff)
  have "c * ((a mod c + b mod c) div c) \<le> a mod c + b mod c"
    using mult_div_mod_eq [of c "a mod c + b mod c"]
          pos_mod_sign [OF assms, of "a mod c + b mod c"] by linarith
  then have "c * ((a mod c + b mod c) div c) < c * 2"
    using m(2) by linarith
  then have hi: "(a mod c + b mod c) div c < 2"
    using assms by (simp add: mult_less_cancel_left_pos)
  from lo hi e show ?thesis by linarith
qed

lemma quotient_sum_bounds:
  fixes s a t ob m :: int
  assumes "0 < s + a + t + ob + m"
  shows "96 \<le> s * 100 div (s + a + t + ob + m) + a * 100 div (s + a + t + ob + m)
               + t * 100 div (s + a + t + ob + m) + ob * 100 div (s + a + t + ob + m)
               + m * 100 div (s + a + t + ob + m)
       \<and> s * 100 div (s + a + t + ob + m) + a * 100 div (s + a + t + ob + m)
               + t * 100 div (s + a + t + ob + m) + ob * 100 div (s + a + t + ob + m)
               + m * 100 div (s + a + t + ob + m) \<le> 100"
proof -
  define T where "T = s + a + t + ob + m"
  have T: "0 < T" using assms by (simp add: T_def)
  have whole: "(s * 100 + a * 100 + t * 100 + ob * 100 + m * 100) div T = 100"
  proof -
    have "s * 100 + a * 100 + t * 100 + ob * 100 + m * 100 = 100 * T"
      by (simp add: T_def algebra_simps)
    then show ?thesis using T by simp
  qed
  note b1 = div_add_bounds [OF T, of "s * 100" "a * 100"]
  note b2 = div_add_bounds [OF T, of "s * 100 + a * 100" "t * 100"]
  note b3 = div_add_bounds [OF T, of "s * 100 + a * 100 + t * 100" "ob * 100"]
  note b4 = div_add_bounds [OF T, of "s * 100 + a * 100 + t * 100 + ob * 100" "m * 100"]
  show ?thesis
    unfolding T_def [symmetric] using b1 b2 b3 b4 whole by linarith
qed

text \<open>
  Claim C1, as the spec states it: whenever a raw score is positive, the weights sum to
  exactly 100. The code truncates each quotient, so the sum can fall short: a subject
  (raw score 40) and a low-energy action (raw score 30) get the weights 57 and 42.
\<close>

theorem semantic_weights_sum_counterexample:
  "0 < sum_list (dict_values (raw_weights example_components))
   \<and> sum_list (dict_values (calculate_semantic_weights example_components)) = 99"
  by (simp add: calculate_semantic_weights_def raw_weights_def example_components_def
      dict_values_def default_setting_def default_mood_def endswith_def Let_def)

text \<open>
  Claim C1, amended: the weights of a ComponentSet are non-negative integers under the
  six component names. When a raw score is positive, each weight is the raw score times
  100 divided by the raw total, truncated to an integer, and the weights sum to at least
  96 and at most 100. When no raw score is positive, all weights are zero.
\<close>

theorem semantic_weights_normalised:
  "keys (calculate_semantic_weights cs) = component_names
   \<and> list_all (\<lambda>v. 0 \<le> v) (dict_values (calculate_semantic_weights cs))
   \<and> (0 < sum_list (dict_values (raw_weights cs)) \<longrightarrow>
        calculate_semantic_weights cs =
          map (\<lambda>(key, w). (key, (w * 100) div sum_list (dict_values (raw_weights cs))))
            (raw_weights cs)
        \<and> 96 \<le> sum_list (dict_values (calculate_semantic_weights cs))
        \<and> sum_list (dict_values (calculate_semantic_weights cs)) \<le> 100)
   \<and> (\<not> 0 < sum_list (dict_values (raw_weights cs)) \<longrightarrow>
        list_all (\<lambda>v. v = 0) (dict_values (calculate_semantic_weights cs)))"
proof -
  obtain s a t ob m where
    raw: "raw_weights cs = [(''subject'', s), (''action'', a), (''setting'', t),
                          (''objects'', ob), (''colors'', 0), (''mood'', m)]"
    and nonneg: "0 \<le> s" "0 \<le> a" "0 \<le> t" "0 \<le> ob" "0 \<le> m"
    using raw_weights_shape [of cs] by blast
  have total: "sum_list (dict_values (raw_weights cs)) = s + a + t + ob + m"
    by (simp add: raw dict_values_def)
  show ?thesis
  proof (cases "0 < s + a + t + ob + m")
    case True
    have ws: "calculate_semantic_weights cs =
          map (\<lambda>(key, w). (key, (w * 100) div (s + a + t + ob + m))) (raw_weights cs)"
      using True by (simp add: calculate_semantic_weights_def total Let_def)
    have sum: "sum_list (dict_values (calculate_semantic_weights cs)) =
        s * 100 div (s + a + t + ob + m) + a * 100 div (s + a + t + ob + m)
               + t * 100 div (s + a + t + ob + m) + ob * 100 div (s + a + t + ob + m)
               + m * 100 div (s + a + t + ob + m)"
      by (simp add: ws raw dict_values_def)
    have pos: "list_all (\<lambda>v. 0 \<le> v) (dict_values (calculate_semantic_weights cs))"
      using nonneg True by (simp add: ws raw dict_values_def pos_imp_zdiv_nonneg_iff)
    have k: "keys (calculate_semantic_weights cs) = component_names"
      by (simp add: ws raw keys_def component_names_def)
    show ?thesis
      using quotient_sum_bounds [OF True] True k pos ws
      unfolding sum total by simp
  next
    case False
    then have z: "s = 0" "a = 0" "t = 0" "ob = 0" "m = 0"
      using nonneg by auto
    have ws: "calculate_semantic_weights cs = raw_weights cs"
      using False by (simp add: calculate_semantic_weights_def total Let_def)
    show ?thesis
      using False by (simp add: ws raw z total keys_def dict_values_def component_names_def)
  qed
qed

theorem semantic_weights_normalised_witness:
  "0 < sum_list (dict_values (raw_weights example_components))
   \<and> calculate_semantic_weights example_components =
       [(''subject'', 57), (''action'', 42), (''setting'', 0), (''objects'', 0),
        (''colors'', 0), (''mood'', 0)]
   \<and> 96 \<le> sum_list (dict_values (calculate_semantic_weights example_components))
   \<and> \<not> 0 < sum_list (dict_values (raw_weights
              (example_components\<lparr>c_subject := default_subject, c_action := default_action\<rparr>)))
   \<and> list_all (\<lambda>v. v = 0) (dict_values (calculate_semantic_weights
              (example_components\<lparr>c_subject := default_subject, c_action := default_action\<rparr>)))"
  using semantic_weights_normalised [of example_components]
        semantic_weights_normalised
          [of "example_components\<lparr>c_subject := default_subject, c_action := default_action\<rparr>"]
  by (simp add: raw_weights_def example_components_def
      dict_values_def default_setting_def default_mood_def default_subject_def
      default_action_def endswith_def Let_def)

section \<open>The lexical extractor\<close>

text \<open>
  Claim C8: for every input text, \<^verbatim>\<open>extract_colors\<close> returns exactly the names of the
  16-entry palette that occur as a substring of the lower-cased text, in the order of
  the palette.
\<close>

theorem extract_colors_palette_order:
  "extract_colors prompt =
     filter (\<lambda>color. \<exists>pre post. py_lower prompt = pre @ color @ post) color_palette
   \<and> length color_palette = 16"
  by (simp add: extract_colors_def collect_found_filter str_in_iff color_palette_def)

section \<open>The prompt assembler\<close>

text \<open>
  Claim C5, as the spec states it: a component weighted exactly 60 yields the multiplier
  1.0. The thresholds are strict and 60 is above 40, so the assembler stores 1.15.
\<close>

theorem emphasis_weight_60_counterexample:
  "emphasis_of 60 = 1.15
   \<and> map_sum id emphasis
       (build_prompt_skeleton (cached_world category_instances) [] ''mascot_theater''
          [(''subject'', 60)]) = Inr [(''subject'', 1.15)]
   \<and> (1.15 :: real) \<noteq> 1.0"
  by (simp add: build_prompt_skeleton_def cached_world_def loader_world_def get_templates_def
      template_map_def dict_get_def emphasis_of_def Let_def)

text \<open>
  Claim C5, amended: the multiplier stored for a component of the weights is 1.3 above
  60, 1.15 above 40, 1.0 above 20 and 0.85 otherwise, the comparisons being strict. So a
  weight of 61 yields 1.3, exactly 60 yields 1.15, 41 yields 1.15, exactly 40 yields 1.0,
  21 yields 1.0 and exactly 20 yields 0.85.
\<close>

theorem emphasis_tiers:
  "(build_prompt_skeleton w tc category ws = Inr sk \<and> distinct (keys ws) \<and> (c, wt) \<in> set ws
      \<longrightarrow> dict_get (emphasis sk) c =
            Some (if 60 < wt then 1.3 else if 40 < wt then 1.15
                  else if 20 < wt then 1.0 else 0.85))
   \<and> emphasis_of 60 = 1.15 \<and> emphasis_of 61 = 1.3
   \<and> emphasis_of 40 = 1.0 \<and> emphasis_of 41 = 1.15
   \<and> emphasis_of 20 = 0.85 \<and> emphasis_of 21 = 1.0"
proof -
  have "dict_get (emphasis sk) c = Some (emphasis_of wt)"
    if "build_prompt_skeleton w tc category ws = Inr sk" "distinct (keys ws)" "(c, wt) \<in> set ws"
  proof -
    from that(1) have "emphasis sk = emphasis_loop ws []"
      by (auto simp: build_prompt_skeleton_def Let_def split: option.splits)
    then show ?thesis using emphasis_loop_get [OF that(2,3)] by simp
  qed
  then show ?thesis by (auto simp: emphasis_of_def)
qed

theorem emphasis_tiers_witness:
  "distinct (keys [(''subject'', 60 :: int), (''action'', 61), (''setting'', 40)])
   \<and> map_sum id emphasis
       (build_prompt_skeleton (cached_world category_instances) [] ''mascot_theater''
          [(''subject'', 60), (''action'', 61), (''setting'', 40)])
     = Inr [(''subject'', 1.15), (''action'', 1.3), (''setting'', 1.0)]
   \<and> dict_get [(''subject'', 1.15), (''action'', 1.3), (''setting'', 1.0 :: real)] ''subject''
     = Some 1.15"
  using emphasis_tiers [of "cached_world category_instances" "[]" "''mascot_theater''"
          "[(''subject'', 60), (''action'', 61), (''setting'', 40)]"
          "\<lparr>sections = [], emphasis = [(''subject'', 1.15), (''action'', 1.3), (''setting'', 1.0)],
            sk_template = snd (hd template_map),
            negative_prompt = generate_negative_prompt ''mascot_theater''
                                (CATEGORIES (cached_world category_instances)),
            sk_metadata = \<lparr>md_category = ''mascot_theater'', estimated_tokens = 0,
                           ready_for_synthesis = True, user_modifications = None\<rparr>\<rparr>"
          "''subject''" 60]
  by (simp add: build_prompt_skeleton_def cached_world_def loader_world_def get_templates_def
      template_map_def dict_get_def emphasis_of_def Let_def order_by_importance_def
      token_estimate_def dict_values_def keys_def)

text \<open>
  Claim C4: \<^verbatim>\<open>refine_component\<close> with a name that is no current section key fails with
  the UnknownComponent condition and leaves the skeleton as it was. With a current
  section key it replaces the value of that section by the given string (the other
  sections, the emphasis, the template and the negative prompt stay), appends the name
  to the modification history, and sets the token estimate to the sum of the character
  lengths of the section values (of \<^verbatim>\<open>str(v)\<close> for each value), divided by 4 and rounded
  down.
\<close>

theorem refine_component_spec:
  "(\<not> has_key (sections sk) component_name \<longrightarrow>
      refine_component sk component_name new_value =
        (Inl (UnknownComponent component_name (keys (sections sk))), sk))
   \<and> (has_key (sections sk) component_name \<longrightarrow>
        (\<exists>sk'. refine_component sk component_name new_value = (Inr sk', sk')
           \<and> dict_get (sections sk') component_name = Some (Str new_value)
           \<and> keys (sections sk') = keys (sections sk)
           \<and> (\<forall>k. k \<noteq> component_name \<longrightarrow>
                 dict_get (sections sk') k = dict_get (sections sk) k)
           \<and> user_modifications (sk_metadata sk') =
               Some ((case user_modifications (sk_metadata sk) of
                        None \<Rightarrow> [] | Some l \<Rightarrow> l) @ [component_name])
           \<and> estimated_tokens (sk_metadata sk') =
               int (sum_list (map (\<lambda>v. length (py_str v)) (dict_values (sections sk')))) div 4
           \<and> md_category (sk_metadata sk') = md_category (sk_metadata sk)
           \<and> ready_for_synthesis (sk_metadata sk') = ready_for_synthesis (sk_metadata sk)
           \<and> emphasis sk' = emphasis sk
           \<and> sk_template sk' = sk_template sk
           \<and> negative_prompt sk' = negative_prompt sk))"
  by (simp add: refine_component_def Let_def dict_get_dict_set keys_dict_set_present
      token_estimate_def)

theorem refine_component_spec_witness:
  "\<not> has_key (sections example_skeleton) ''mood''
   \<and> refine_component example_skeleton ''mood'' ''calm'' =
       (Inl (UnknownComponent ''mood'' [''subject'', ''style_markers'']), example_skeleton)
   \<and> has_key (sections example_skeleton) ''subject''
   \<and> fst (refine_component example_skeleton ''subject'' ''a dog'') =
       Inr (example_skeleton
             \<lparr>sections := [(''subject'', Str ''a dog''),
                           (''style_markers'', StrList [''cartoon character'', ''bold outlines''])],
              sk_metadata := \<lparr>md_category = ''mascot_theater'', estimated_tokens = 10,
                              ready_for_synthesis = True,
                              user_modifications = Some [''subject'']\<rparr>\<rparr>)"
  using refine_component_spec [of example_skeleton "''mood''" "''calm''"]
        refine_component_spec [of example_skeleton "''subject''" "''a dog''"]
  by (simp add: refine_component_def example_skeleton_def has_key_def keys_def Let_def
      token_estimate_def dict_values_def py_repr_def repr_char_def)

lemma apply_category_transformation_keys:
  "apply_category_transformation cs rules maps ps = Inr tc \<Longrightarrow>
   keys tc = [''subject'', ''action'', ''setting'', ''colors'', ''effects'',
              ''style_markers'', ''typography'']"
  by (auto simp: apply_category_transformation_def bind_err_def keys_def Let_def
      split: sum.splits if_splits)

lemma build_prompt_skeleton_Inr:
  "build_prompt_skeleton w tc category ws = Inr sk \<Longrightarrow>
   sections sk = order_by_importance tc ws (t_emphasis_order (sk_template sk))
   \<and> emphasis sk = emphasis_loop ws []
   \<and> dict_get (TEMPLATES w) category = Some (sk_template sk)"
  by (auto simp: build_prompt_skeleton_def Let_def split: option.splits)

lemma build_prompt_skeleton_distinct:
  "build_prompt_skeleton w tc category ws = Inr sk \<Longrightarrow>
   distinct (keys (sections sk)) \<and> distinct (keys (emphasis sk))"
  using build_prompt_skeleton_Inr [of w tc category ws sk]
        order_remaining_distinct [OF order_emphasis_distinct, of "[]" tc]
        emphasis_loop_distinct [of "[]" ws]
  by (simp add: order_by_importance_def keys_def)

text \<open>
  Claim C2, as the spec states it: the keys of \<open>sections\<close> are among the six component
  names of the ComponentSet. The sections are the non-empty transformed components, and
  these include the effects, the style markers and the typography: for a person sitting,
  styled as \<^verbatim>\<open>mascot_theater\<close>, the skeleton has a section \<^verbatim>\<open>effects\<close>.
\<close>

theorem sections_keys_counterexample:
  "map_sum id (keys \<circ> sections)
     (transform_then_assemble (cached_world category_instances) example_components
        ''mascot_theater'' None (calculate_semantic_weights example_components))
     = Inr [''subject'', ''action'', ''effects'', ''setting'', ''colors'', ''typography'',
            ''style_markers'']
   \<and> ''effects'' \<notin> set component_names"
  by code_simp

text \<open>
  Claim C2, amended: the keys of the \<open>sections\<close> of a skeleton that
  \<^verbatim>\<open>build_prompt_skeleton\<close> returns are among the keys of the transformed components it
  was given, which for the output of \<^verbatim>\<open>apply_transformations\<close> are subject, action,
  setting, colors, effects, style_markers and typography. The keys of \<open>emphasis\<close> are
  the keys of the weights it was given, which for the weights of
  \<^verbatim>\<open>calculate_semantic_weights\<close> are the six component names. A successful
  \<^verbatim>\<open>refine_component\<close> keeps the keys of the sections and the whole emphasis mapping.
\<close>

theorem skeleton_key_sets:
  "(build_prompt_skeleton w tc category ws = Inr sk \<longrightarrow>
      set (keys (sections sk)) \<subseteq> set (keys tc)
      \<and> set (keys (emphasis sk)) = set (keys ws))
   \<and> (apply_transformations w cs category ps = Inr tc \<longrightarrow>
        keys tc = [''subject'', ''action'', ''setting'', ''colors'', ''effects'',
                   ''style_markers'', ''typography''])
   \<and> keys (calculate_semantic_weights cs) = component_names
   \<and> (fst (refine_component sk component_name new_value) = Inr sk' \<longrightarrow>
        keys (sections sk') = keys (sections sk) \<and> emphasis sk' = emphasis sk)"
proof -
  have a: "set (keys (sections sk)) \<subseteq> set (keys tc) \<and> set (keys (emphasis sk)) = set (keys ws)"
    if "build_prompt_skeleton w tc category ws = Inr sk"
    using build_prompt_skeleton_Inr [OF that] order_by_importance_keys [of tc ws]
          emphasis_loop_keys [of ws "[]"]
    by (simp add: keys_def)
  have b: "keys tc = [''subject'', ''action'', ''setting'', ''colors'', ''effects'',
                   ''style_markers'', ''typography'']"
    if "apply_transformations w cs category ps = Inr tc"
    using that apply_category_transformation_keys
    by (auto simp: apply_transformations_def Let_def split: option.splits)
  have c: "keys (calculate_semantic_weights cs) = component_names"
  proof -
    obtain s a t ob m where
      raw: "raw_weights cs = [(''subject'', s), (''action'', a), (''setting'', t),
                          (''objects'', ob), (''colors'', 0), (''mood'', m)]"
      using raw_weights_shape [of cs] by blast
    show ?thesis
      by (simp add: calculate_semantic_weights_def raw keys_def component_names_def Let_def)
  qed
  have d: "keys (sections sk') = keys (sections sk) \<and> emphasis sk' = emphasis sk"
    if "fst (refine_component sk component_name new_value) = Inr sk'"
    using that
    by (auto simp: refine_component_def Let_def keys_dict_set_present split: if_splits)
  from a b c d show ?thesis by blast
qed

theorem skeleton_key_sets_witness:
  "\<exists>tc sk sk'.
     apply_transformations (cached_world category_instances) example_components
       ''mascot_theater'' None = Inr tc
     \<and> build_prompt_skeleton (cached_world category_instances) tc ''mascot_theater''
         (calculate_semantic_weights example_components) = Inr sk
     \<and> fst (refine_component sk ''subject'' ''a dog'') = Inr sk'
     \<and> set (keys (sections sk)) \<subseteq> set (keys tc)
     \<and> set (keys (emphasis sk)) = set component_names
     \<and> keys (sections sk') = keys (sections sk)"
proof -
  let ?w = "cached_world category_instances"
  let ?ws = "calculate_semantic_weights example_components"
  have run: "map_sum id (\<lambda>sk. keys (sections sk))
               (transform_then_assemble ?w example_components ''mascot_theater'' None ?ws)
             = Inr [''subject'', ''action'', ''effects'', ''setting'', ''colors'',
                    ''typography'', ''style_markers'']"
    by code_simp
  then obtain sk where
    sk: "transform_then_assemble ?w example_components ''mascot_theater'' None ?ws = Inr sk"
    and ks: "keys (sections sk) = [''subject'', ''action'', ''effects'', ''setting'',
                                   ''colors'', ''typography'', ''style_markers'']"
    by (cases "transform_then_assemble ?w example_components ''mascot_theater'' None ?ws")
       auto
  from sk obtain tc where
    tc: "apply_transformations ?w example_components ''mascot_theater'' None = Inr tc"
    and b: "build_prompt_skeleton ?w tc ''mascot_theater'' ?ws = Inr sk"
    by (auto simp: transform_then_assemble_def bind_err_def split: sum.splits)
  have "has_key (sections sk) ''subject''"
    by (simp add: has_key_def ks)
  then obtain sk' where r: "fst (refine_component sk ''subject'' ''a dog'') = Inr sk'"
    by (simp add: refine_component_def Let_def)
  note inst = skeleton_key_sets [of ?w tc "''mascot_theater''" ?ws sk example_components None
                                  "''subject''" "''a dog''" sk']
  from inst tc b r show ?thesis by metis
qed

text \<open>
  The tools read the module tables only at the category they are called with.
\<close>

lemma apply_transformations_reads:
  "dict_get (CATEGORIES w1) category = dict_get (CATEGORIES w2) category \<Longrightarrow>
   TRANSFORMATION_MAPS w1 = TRANSFORMATION_MAPS w2 \<Longrightarrow>
   apply_transformations w1 cs category ps = apply_transformations w2 cs category ps"
  by (simp add: apply_transformations_def split: option.splits)

lemma build_prompt_skeleton_reads:
  "dict_get (CATEGORIES w1) category = dict_get (CATEGORIES w2) category \<Longrightarrow>
   dict_get (TEMPLATES w1) category = dict_get (TEMPLATES w2) category \<Longrightarrow>
   build_prompt_skeleton w1 tc category ws = build_prompt_skeleton w2 tc category ws"
  by (simp add: build_prompt_skeleton_def generate_negative_prompt_def Let_def
      split: option.splits)

text \<open>
  So does the pipeline: \<^verbatim>\<open>apply_transformations\<close> followed by
  \<^verbatim>\<open>build_prompt_skeleton\<close> returns the same skeleton, or raises the same error, in any
  two bindings of the module tables that agree at the category.
\<close>

lemma transform_then_assemble_reads:
  "dict_get (CATEGORIES w1) category = dict_get (CATEGORIES w2) category \<Longrightarrow>
   TRANSFORMATION_MAPS w1 = TRANSFORMATION_MAPS w2 \<Longrightarrow>
   dict_get (TEMPLATES w1) category = dict_get (TEMPLATES w2) category \<Longrightarrow>
   transform_then_assemble w1 cs category ps ws = transform_then_assemble w2 cs category ps ws"
  by (simp add: transform_then_assemble_def
      apply_transformations_reads [of w1 category w2]
      build_prompt_skeleton_reads [of w1 category w2])

section \<open>Totality and defaults of the extractor\<close>

text \<open>
  A capturing group that every match of a pattern runs through has a span in the match
  object: the groups of a match state only grow along a match.
\<close>

lemma rmatch_keys_mono:
  "s' \<in> set (rmatch t r s) \<Longrightarrow> set (keys (snd s)) \<subseteq> set (keys (snd s'))"
proof (induction t r s arbitrary: s' rule: rmatch.induct)
  case (1 t w i g)
  then show ?case by (auto split: if_splits)
next
  case (2 t i g)
  then show ?case by (auto split: if_splits)
next
  case (3 t c i g)
  then show ?case by auto
next
  case (4 t c i g)
  then show ?case by auto
next
  case (5 t rs s)
  from "5.prems" obtain r where "r \<in> set rs" "s' \<in> set (rmatch t r s)" by auto
  then show ?case using "5.IH" by blast
next
  case (6 t r s)
  from "6.prems" have "s' \<in> set (rmatch t r s) \<or> s' = s" by auto
  then show ?case using "6.IH" by blast
next
  case (7 t n r i g)
  from "7.prems" obtain j g' where
    m: "(j, g') \<in> set (rmatch t r (i, g))" and s': "s' = (j, dict_set g' n (i, j))"
    by auto
  from "7.IH" [OF m] have "set (keys g) \<subseteq> set (keys g')" by simp
  then show ?case using s' by (auto simp: keys_dict_set)
next
  case (8 t s)
  then show ?case by simp
next
  case (9 t r rs s)
  from "9.prems" obtain s1 where
    a: "s1 \<in> set (rmatch t r s)" and b: "s' \<in> set (rmatch t (Seq rs) s1)"
    by auto
  from "9.IH"(1) [OF a] "9.IH"(2) [OF a b] show ?case by blast
qed

lemma rmatch_Grp_key:
  "s' \<in> set (rmatch t (Grp n r) s) \<Longrightarrow> n \<in> set (keys (snd s'))"
  by (cases s) (auto simp: keys_dict_set)

lemma rmatch_Seq_Bnd_Grp_key:
  assumes "s' \<in> set (rmatch t (Seq (Bnd # Grp n r # rest)) s)"
  shows "n \<in> set (keys (snd s'))"
proof -
  from assms obtain s1 where
    a: "s1 \<in> set (rmatch t Bnd s)" and b: "s' \<in> set (rmatch t (Seq (Grp n r # rest)) s1)"
    by auto
  from b obtain s2 where
    c: "s2 \<in> set (rmatch t (Grp n r) s1)" and d: "s' \<in> set (rmatch t (Seq rest) s2)"
    by auto
  from rmatch_Grp_key [OF c] rmatch_keys_mono [OF d] show ?thesis by blast
qed

lemma search_from_Some:
  "search_from r t i n = Some m \<Longrightarrow> \<exists>k. match_at r t k = Some m"
  by (induction n arbitrary: i) (auto split: option.splits)

lemma key_dict_get: "k \<in> set (keys d) \<Longrightarrow> \<exists>v. dict_get d k = Some v"
  by (induction d) (auto simp: keys_def dict_get_def)

lemma match_at_group:
  assumes "match_at (Seq (Bnd # Grp n r # rest)) t i = Some m"
  shows "\<exists>w. group m n = Some w"
proof -
  define L where "L = rmatch t (Seq (Bnd # Grp n r # rest)) (i, [])"
  from assms have c: "(case L of [] \<Rightarrow> None
                       | (j, g) # _ \<Rightarrow> Some \<lparr>mo_text = t, mo_start = i, mo_end = j,
                                               mo_groups = g\<rparr>) = Some m"
    unfolding match_at_def L_def .
  then obtain j g ps where L: "L = (j, g) # ps" and m: "mo_groups m = g"
    by (cases L) auto
  then have "(j, g) \<in> set (rmatch t (Seq (Bnd # Grp n r # rest)) (i, []))"
    unfolding L_def [symmetric] by simp
  from rmatch_Seq_Bnd_Grp_key [OF this] have "n \<in> set (keys g)" by simp
  from key_dict_get [OF this] obtain v where "dict_get g n = Some v" by blast
  then show ?thesis using m by (cases v) (simp add: group_def)
qed

lemma subject_count_total: "\<exists>n. subject_count subject_name prompt = Inr n"
proof (cases "re_search (count_pattern subject_name) prompt")
  case None
  then show ?thesis by (simp add: subject_count_def)
next
  case (Some m)
  then obtain k where "match_at (count_pattern subject_name) prompt k = Some m"
    unfolding re_search_def using search_from_Some by blast
  then obtain w where w: "group m 1 = Some w"
    unfolding count_pattern_def using match_at_group by blast
  then have w': "group m (Suc 0) = Some w" by simp
  show ?thesis
    by (simp add: subject_count_def Some w' Let_def py_isdigit_def py_int_def bind_err_def)
qed

lemma subject_of_match_total: "\<exists>s. subject_of_match subject_type m prompt maps = Inr s"
  using subject_count_total [of "group0 m" prompt]
  by (auto simp: subject_of_match_def Let_def bind_err_def)

lemma extract_subject_loop_total: "\<exists>s. extract_subject_loop tbl prompt maps = Inr s"
proof (induction tbl)
  case Nil
  then show ?case by simp
next
  case (Cons p tbl)
  obtain ty pat where p: "p = (ty, pat)" by (cases p)
  show ?case
    unfolding p using Cons.IH subject_of_match_total
    by (cases "re_search pat prompt") auto
qed

lemma extract_subject_loop_default:
  "\<forall>(ty, pat) \<in> set tbl. re_search pat prompt = None \<Longrightarrow>
   extract_subject_loop tbl prompt maps = Inr default_subject"
  by (induction tbl) auto

lemma extract_setting_loop_default:
  "\<forall>(ty, pat) \<in> set tbl. re_search pat prompt = None \<Longrightarrow>
   extract_setting_loop tbl prompt = default_setting"
  by (induction tbl) auto

lemma find_None_iff: "find P xs = None \<longleftrightarrow> (\<forall>x \<in> set xs. \<not> P x)"
  by (induction xs) auto

lemma extract_action_loop_default:
  "\<forall>(lvl, verbs) \<in> set tbl. \<forall>verb \<in> set verbs. \<not> str_in verb (py_lower prompt) \<Longrightarrow>
   extract_action_loop tbl prompt = default_action"
proof (induction tbl)
  case Nil
  then show ?case by simp
next
  case (Cons p tbl)
  obtain lvl verbs where p: "p = (lvl, verbs)" by (cases p)
  have "find (\<lambda>verb. str_in verb (py_lower prompt)) verbs = None"
    using Cons.prems p by (simp add: find_None_iff)
  then show ?case using Cons p by simp
qed

lemma extract_mood_loop_default:
  "\<forall>(valence, es) \<in> set tbl. \<forall>e \<in> set es. \<not> str_in e (py_lower prompt) \<Longrightarrow>
   extract_mood_loop tbl prompt = default_mood"
proof (induction tbl)
  case Nil
  then show ?case by simp
next
  case (Cons p tbl)
  obtain valence es where p: "p = (valence, es)" by (cases p)
  have "find (\<lambda>emotion. str_in emotion (py_lower prompt)) es = None"
    using Cons.prems p by (simp add: find_None_iff)
  then show ?case using Cons p by simp
qed

lemma no_abstract_subject_rule:
  "dict_get (r_subject_rules (build_category_structure category_name)) ''abstract'' = None"
  by (simp add: build_category_structure_def build_subject_rules_def dict_get_def)

lemma transform_subject_default:
  "dict_get (r_subject_rules rules) ''abstract'' = None \<Longrightarrow>
   transform_subject default_subject rules maps params = Inr ''None''"
  by (simp add: transform_subject_def default_subject_def Let_def)

lemma no_subject_in_example:
  "list_all (\<lambda>(ty, pat). re_search pat ''oh my'' = None) subjects"
  by code_simp

text \<open>
  Claim C7: \<^verbatim>\<open>parse_prompt_components\<close> never raises: for every text and every lookup
  table it returns a ComponentSet. Its six fields are what the six extractors return
  for the text, and no weights are stored yet. Each field of the returned ComponentSet
  is its default when no pattern of its table matches: the subject is the default
  subject, of type \<^verbatim>\<open>abstract\<close> with no name and count 0; the action, the setting
  and the mood are their default records; the objects and the colors are empty. For
  the empty text every field is its default.
\<close>

theorem parse_prompt_components_total:
  "(\<exists>cs. parse_prompt_components prompt maps = Inr cs
      \<and> extract_subject prompt maps = Inr (c_subject cs)
      \<and> c_action cs = extract_action prompt
      \<and> c_setting cs = extract_setting prompt
      \<and> c_objects cs = extract_objects prompt
      \<and> c_colors cs = extract_colors prompt
      \<and> c_mood cs = extract_mood prompt
      \<and> c_semantic_weights cs = None
      \<and> ((\<forall>(ty, pat) \<in> set subjects. re_search pat prompt = None) \<longrightarrow>
           c_subject cs = default_subject)
      \<and> ((\<forall>(lvl, verbs) \<in> set actions. \<forall>verb \<in> set verbs.
              \<not> str_in verb (py_lower prompt)) \<longrightarrow>
           c_action cs = default_action)
      \<and> ((\<forall>(ty, pat) \<in> set settings. re_search pat prompt = None) \<longrightarrow>
           c_setting cs = default_setting)
      \<and> (re_finditer prop_pattern prompt = [] \<longrightarrow> c_objects cs = [])
      \<and> ((\<forall>color \<in> set color_palette. \<not> str_in color (py_lower prompt)) \<longrightarrow>
           c_colors cs = [])
      \<and> ((\<forall>(valence, es) \<in> set emotions. \<forall>e \<in> set es.
              \<not> str_in e (py_lower prompt)) \<longrightarrow>
           c_mood cs = default_mood))
   \<and> parse_prompt_components [] maps =
       Inr \<lparr>c_subject = default_subject, c_action = default_action,
            c_setting = default_setting, c_objects = [], c_colors = [],
            c_mood = default_mood, c_semantic_weights = None\<rparr>
   \<and> ((\<forall>(ty, pat) \<in> set subjects. re_search pat prompt = None) \<longrightarrow>
        extract_subject prompt maps = Inr default_subject)
   \<and> ((\<forall>(lvl, verbs) \<in> set actions. \<forall>verb \<in> set verbs. \<not> str_in verb (py_lower prompt)) \<longrightarrow>
        extract_action prompt = default_action)
   \<and> ((\<forall>(ty, pat) \<in> set settings. re_search pat prompt = None) \<longrightarrow>
        extract_setting prompt = default_setting)
   \<and> (re_finditer prop_pattern prompt = [] \<longrightarrow> extract_objects prompt = [])
   \<and> ((\<forall>color \<in> set color_palette. \<not> str_in color (py_lower prompt)) \<longrightarrow>
        extract_colors prompt = [])
   \<and> ((\<forall>(valence, es) \<in> set emotions. \<forall>e \<in> set es. \<not> str_in e (py_lower prompt)) \<longrightarrow>
        extract_mood prompt = default_mood)
   \<and> default_subject =
       \<lparr>s_type = ''abstract'', s_name = None, s_attributes = [], s_profession = None,
        s_count = 0\<rparr>
   \<and> default_action =
       \<lparr>a_verb = None, a_energy_level = ''low'', a_object = None, a_modifier = None,
        a_progressive = False\<rparr>
   \<and> default_setting =
       \<lparr>st_type = ''abstract'', st_location = None, st_attributes = [], st_time = None\<rparr>
   \<and> default_mood = \<lparr>m_emotion = None, m_valence = ''neutral'', m_intensity = ''medium''\<rparr>
   \<and> s_type default_subject = ''abstract'' \<and> s_name default_subject = None
   \<and> s_count default_subject = 0"
proof -
  obtain subj where subj: "extract_subject prompt maps = Inr subj"
    using extract_subject_loop_total [of subjects prompt maps]
    by (auto simp: extract_subject_def)
  define cs where
    "cs = \<lparr>c_subject = subj, c_action = extract_action prompt,
            c_setting = extract_setting prompt, c_objects = extract_objects prompt,
            c_colors = extract_colors prompt, c_mood = extract_mood prompt,
            c_semantic_weights = None\<rparr>"
  have p: "parse_prompt_components prompt maps = Inr cs"
    by (simp add: parse_prompt_components_def bind_err_def subj cs_def)
  have empty: "parse_prompt_components [] maps =
       Inr \<lparr>c_subject = default_subject, c_action = default_action,
            c_setting = default_setting, c_objects = [], c_colors = [],
            c_mood = default_mood, c_semantic_weights = None\<rparr>"
    by code_simp
  have d_subject: "extract_subject prompt maps = Inr default_subject"
    if "\<forall>(ty, pat) \<in> set subjects. re_search pat prompt = None"
    using that extract_subject_loop_default [of subjects prompt maps]
    by (simp add: extract_subject_def)
  have d_action: "extract_action prompt = default_action"
    if "\<forall>(lvl, verbs) \<in> set actions. \<forall>verb \<in> set verbs. \<not> str_in verb (py_lower prompt)"
    using that extract_action_loop_default [of actions prompt]
    by (simp add: extract_action_def)
  have d_setting: "extract_setting prompt = default_setting"
    if "\<forall>(ty, pat) \<in> set settings. re_search pat prompt = None"
    using that extract_setting_loop_default [of settings prompt]
    by (simp add: extract_setting_def)
  have d_objects: "extract_objects prompt = []"
    if "re_finditer prop_pattern prompt = []"
    using that by (simp add: extract_objects_def)
  have d_colors: "extract_colors prompt = []"
    if "\<forall>color \<in> set color_palette. \<not> str_in color (py_lower prompt)"
    using that by (simp add: extract_colors_def collect_found_filter filter_empty_conv)
  have d_mood: "extract_mood prompt = default_mood"
    if "\<forall>(valence, es) \<in> set emotions. \<forall>e \<in> set es. \<not> str_in e (py_lower prompt)"
    using that extract_mood_loop_default [of emotions prompt]
    by (simp add: extract_mood_def)
  have fields: "extract_subject prompt maps = Inr (c_subject cs)"
    "c_action cs = extract_action prompt" "c_setting cs = extract_setting prompt"
    "c_objects cs = extract_objects prompt" "c_colors cs = extract_colors prompt"
    "c_mood cs = extract_mood prompt" "c_semantic_weights cs = None"
    by (simp_all add: cs_def subj)
  have d_subject': "c_subject cs = default_subject"
    if "\<forall>(ty, pat) \<in> set subjects. re_search pat prompt = None"
    using d_subject [OF that] fields(1) by simp
  have first: "\<exists>cs. parse_prompt_components prompt maps = Inr cs
      \<and> extract_subject prompt maps = Inr (c_subject cs)
      \<and> c_action cs = extract_action prompt
      \<and> c_setting cs = extract_setting prompt
      \<and> c_objects cs = extract_objects prompt
      \<and> c_colors cs = extract_colors prompt
      \<and> c_mood cs = extract_mood prompt
      \<and> c_semantic_weights cs = None
      \<and> ((\<forall>(ty, pat) \<in> set subjects. re_search pat prompt = None) \<longrightarrow>
           c_subject cs = default_subject)
      \<and> ((\<forall>(lvl, verbs) \<in> set actions. \<forall>verb \<in> set verbs.
              \<not> str_in verb (py_lower prompt)) \<longrightarrow>
           c_action cs = default_action)
      \<and> ((\<forall>(ty, pat) \<in> set settings. re_search pat prompt = None) \<longrightarrow>
           c_setting cs = default_setting)
      \<and> (re_finditer prop_pattern prompt = [] \<longrightarrow> c_objects cs = [])
      \<and> ((\<forall>color \<in> set color_palette. \<not> str_in color (py_lower prompt)) \<longrightarrow>
           c_colors cs = [])
      \<and> ((\<forall>(valence, es) \<in> set emotions. \<forall>e \<in> set es.
              \<not> str_in e (py_lower prompt)) \<longrightarrow>
           c_mood cs = default_mood)"
    apply (rule exI [of _ cs])
    using p fields d_subject' d_action d_setting d_objects d_colors d_mood
    apply (simp only:)
    apply blast
    done
  have defaults: "default_subject =
       \<lparr>s_type = ''abstract'', s_name = None, s_attributes = [], s_profession = None,
        s_count = 0\<rparr>"
    "default_action =
       \<lparr>a_verb = None, a_energy_level = ''low'', a_object = None, a_modifier = None,
        a_progressive = False\<rparr>"
    "default_setting =
       \<lparr>st_type = ''abstract'', st_location = None, st_attributes = [], st_time = None\<rparr>"
    "default_mood = \<lparr>m_emotion = None, m_valence = ''neutral'', m_intensity = ''medium''\<rparr>"
    "s_type default_subject = ''abstract''" "s_name default_subject = None"
    "s_count default_subject = 0"
    by (simp_all add: default_subject_def default_action_def default_setting_def
        default_mood_def)
  show ?thesis
    apply (intro conjI)
    using first empty d_subject d_action d_setting d_objects d_colors d_mood defaults
    apply blast+
    done
qed

theorem parse_prompt_components_total_witness:
  "list_all (\<lambda>(ty, pat). re_search pat ''oh my'' = None) subjects
   \<and> list_all (\<lambda>(lvl, verbs). list_all (\<lambda>verb. \<not> str_in verb (py_lower ''oh my'')) verbs)
       actions
   \<and> list_all (\<lambda>(ty, pat). re_search pat ''oh my'' = None) settings
   \<and> re_finditer prop_pattern ''oh my'' = []
   \<and> list_all (\<lambda>color. \<not> str_in color (py_lower ''oh my'')) color_palette
   \<and> list_all (\<lambda>(valence, es). list_all (\<lambda>e. \<not> str_in e (py_lower ''oh my'')) es)
       emotions
   \<and> parse_prompt_components ''oh my'' get_transformation_maps =
       Inr \<lparr>c_subject = default_subject, c_action = default_action,
            c_setting = default_setting, c_objects = [], c_colors = [],
            c_mood = default_mood, c_semantic_weights = None\<rparr>"
proof -
  note h1 = no_subject_in_example
  have h2: "list_all (\<lambda>(lvl, verbs). list_all (\<lambda>verb. \<not> str_in verb (py_lower ''oh my'')) verbs)
       actions"
    by code_simp
  have h3: "list_all (\<lambda>(ty, pat). re_search pat ''oh my'' = None) settings"
    by code_simp
  have h4: "re_finditer prop_pattern ''oh my'' = []"
    by code_simp
  have h5: "list_all (\<lambda>color. \<not> str_in color (py_lower ''oh my'')) color_palette"
    by code_simp
  have h6: "list_all (\<lambda>(valence, es). list_all (\<lambda>e. \<not> str_in e (py_lower ''oh my'')) es)
       emotions"
    by code_simp
  note inst = parse_prompt_components_total [of "''oh my''" get_transformation_maps]
  from inst [THEN conjunct1] obtain cs where
    p: "parse_prompt_components ''oh my'' get_transformation_maps = Inr cs"
    and w: "c_semantic_weights cs = None"
    and s: "(\<forall>(ty, pat) \<in> set subjects. re_search pat ''oh my'' = None) \<longrightarrow>
           c_subject cs = default_subject"
    and a: "(\<forall>(lvl, verbs) \<in> set actions. \<forall>verb \<in> set verbs.
              \<not> str_in verb (py_lower ''oh my'')) \<longrightarrow>
           c_action cs = default_action"
    and t: "(\<forall>(ty, pat) \<in> set settings. re_search pat ''oh my'' = None) \<longrightarrow>
           c_setting cs = default_setting"
    and ob: "re_finditer prop_pattern ''oh my'' = [] \<longrightarrow> c_objects cs = []"
    and c: "(\<forall>color \<in> set color_palette. \<not> str_in color (py_lower ''oh my'')) \<longrightarrow>
           c_colors cs = []"
    and m: "(\<forall>(valence, es) \<in> set emotions. \<forall>e \<in> set es.
              \<not> str_in e (py_lower ''oh my'')) \<longrightarrow>
           c_mood cs = default_mood"
    by (elim exE conjE) (rule that, assumption+)
  from s h1 have s': "c_subject cs = default_subject"
    by (simp only: list_all_iff) 
  from a h2 have a': "c_action cs = default_action"
    by (simp only: list_all_iff case_prod_unfold)
  from t h3 have t': "c_setting cs = default_setting"
    by (simp only: list_all_iff)
  from ob h4 have ob': "c_objects cs = []"
    by (simp only:)
  from c h5 have c': "c_colors cs = []"
    by (simp only: list_all_iff)
  from m h6 have m': "c_mood cs = default_mood"
    by (simp only: list_all_iff case_prod_unfold)
  have "cs = \<lparr>c_subject = default_subject, c_action = default_action,
            c_setting = default_setting, c_objects = [], c_colors = [],
            c_mood = default_mood, c_semantic_weights = None\<rparr>"
    using w s' a' t' ob' c' m' by (cases cs) simp
  with p h1 h2 h3 h4 h5 h6 show ?thesis by (simp only: simp_thms)
qed

text \<open>
  Claim C10: when no subject pattern matches, the extractor returns the default
  subject, of type \<^verbatim>\<open>abstract\<close> and with the name \<^verbatim>\<open>None\<close>. For rules without a subject
  rule for \<^verbatim>\<open>abstract\<close>, and so for every category the loader builds,
  \<^verbatim>\<open>transform_subject\<close> then returns the four-character string \<^verbatim>\<open>None\<close>: a non-empty
  fragment that renders the missing name.
\<close>

theorem subjectless_subject_fragment:
  "((\<forall>(ty, pat) \<in> set subjects. re_search pat prompt = None) \<longrightarrow>
      extract_subject prompt maps = Inr default_subject)
   \<and> s_type default_subject = ''abstract'' \<and> s_name default_subject = None
   \<and> (dict_get (r_subject_rules rules) ''abstract'' = None \<longrightarrow>
        transform_subject default_subject rules maps' params = Inr ''None'')
   \<and> transform_subject default_subject (build_category_structure category_name) maps' params
       = Inr ''None''"
  using extract_subject_loop_default [of subjects prompt maps]
        transform_subject_default [of rules maps' params]
        transform_subject_default [OF no_abstract_subject_rule, of category_name maps' params]
  by (simp add: extract_subject_def default_subject_def)

theorem subjectless_subject_fragment_witness:
  "list_all (\<lambda>(ty, pat). re_search pat ''oh my'' = None) subjects
   \<and> extract_subject ''oh my'' get_transformation_maps = Inr default_subject
   \<and> dict_get (r_subject_rules (build_category_structure ''health_halo'')) ''abstract'' = None
   \<and> transform_subject default_subject (build_category_structure ''health_halo'')
        get_transformation_maps empty_params = Inr ''None''"
proof -
  note h1 = no_subject_in_example
  have h2: "dict_get (r_subject_rules (build_category_structure ''health_halo'')) ''abstract''
            = None"
    by code_simp
  note inst = subjectless_subject_fragment
                [of "''oh my''" get_transformation_maps
                    "build_category_structure ''health_halo''" get_transformation_maps
                    empty_params "''health_halo''"]
  from inst h1 h2 show ?thesis by (simp add: list_all_iff)
qed

section \<open>The category transformer\<close>

text \<open>
  Claim C3: a text with a high-energy verb, transformed for a category whose action
  table has a high-energy entry, gets the treatment and effects of that entry. The
  code does not: the extractor reports the tier as \<^verbatim>\<open>high\<close>, the tables are keyed
  \<^verbatim>\<open>high_energy\<close>, so the lookup misses and falls back to the low-energy entry. For
  \<^verbatim>\<open>a person running fast\<close> and \<^verbatim>\<open>mascot_theater\<close> the action fragment carries the
  treatment \<^verbatim>\<open>friendly gesture\<close> of the low-energy entry, not \<^verbatim>\<open>dynamic mid-action\<close>.
\<close>

theorem high_energy_verb_uses_low_energy_entry:
  "extract_action ''a person running fast'' =
     \<lparr>a_verb = Some ''running'', a_energy_level = ''high'', a_object = Some ''fast'',
      a_modifier = None, a_progressive = True\<rparr>
   \<and> map_option ar_treatment
       (dict_get (r_action_rules (build_category_structure ''mascot_theater'')) ''high_energy'')
     = Some (Some ''dynamic mid-action'')
   \<and> transform_action (extract_action ''a person running fast'')
        (build_category_structure ''mascot_theater'') get_transformation_maps empty_params
     = Inr (''running with friendly gesture, static pose, one hand waving or pointing, ''
            @ ''welcoming stance, with comically oversized fast, small sparkles, ''
            @ ''simple motion line'')"
  by code_simp

section \<open>The variant generator\<close>

lemma variants_loop_Inr:
  "variants_loop w cs category i ps acc = Inr vs \<longleftrightarrow>
     (\<exists>new. vs = acc @ new
        \<and> list_all2 (\<lambda>(k, p) v. make_variant w cs category k p = Inr v)
            (zip [i ..< i + length ps] ps) new)"
proof (induction ps arbitrary: i acc)
  case Nil
  then show ?case by auto
next
  case (Cons p ps)
  have "[i ..< i + Suc (length ps)] = i # [Suc i ..< i + Suc (length ps)]"
    by (rule upt_conv_Cons) simp
  then have u: "[i ..< i + length (p # ps)] = i # [Suc i ..< Suc i + length ps]"
    by simp
  show ?case
  proof (cases "make_variant w cs category i p")
    case (Inl e)
    then show ?thesis
      unfolding u by (auto simp: bind_err_def list_all2_Cons1)
  next
    case (Inr v)
    then show ?thesis
      unfolding u using Cons.IH [of "Suc i" "acc @ [v]"]
      by (auto simp: bind_err_def list_all2_Cons1)
  qed
qed

lemma make_variant_Inr:
  "make_variant w cs category k ps = Inr v \<Longrightarrow>
     v_style_params v = ps
     \<and> (\<exists>name. p_name ps = Some name
           \<and> v_name v = ''Variant '' @ py_str_int (int k + 1) @ '' ('' @ name @ '')'')
     \<and> (\<exists>tc weights. apply_transformations w cs category (Some ps) = Inr tc
           \<and> c_semantic_weights cs = Some weights
           \<and> build_prompt_skeleton w tc category weights = Inr (v_skeleton v))"
  by (auto simp: make_variant_def bind_err_def split: sum.splits option.splits)

lemma length_param_sets: "length param_sets = 5"
  by (simp add: param_sets_def)

lemma three_presets:
  "zip [0 ..< nat 3] (take (nat 3) param_sets) =
     [(0, param_sets ! 0), (Suc 0, param_sets ! Suc 0), (2, param_sets ! 2)]"
  by code_simp

lemma preset_names:
  "p_name (param_sets ! 0) = Some ''Subtle''"
  "p_name (param_sets ! Suc 0) = Some ''Balanced''"
  "p_name (param_sets ! 2) = Some ''Intense''"
  "take 3 param_sets = [param_sets ! 0, param_sets ! Suc 0, param_sets ! 2]"
  "py_str_int 1 = ''1''"
  "py_str_int 2 = ''2''"
  "py_str_int 3 = ''3''"
  by code_simp+

text \<open>
  What a call of \<^verbatim>\<open>generate_variants\<close> returns when it returns: one variant for each
  of the first count presets, in preset order, each named after its preset and
  carrying the preset and the skeleton assembled with it.
\<close>

lemma generate_variants_Inr:
  "(count < 1 \<or> 5 < count \<longrightarrow> generate_variants w cs category count = Inl InvalidCount)
   \<and> (1 \<le> count \<and> count \<le> 5 \<longrightarrow>
        (generate_variants w cs category count = Inr vs \<longleftrightarrow>
           list_all2 (\<lambda>(k, p) v. make_variant w cs category k p = Inr v)
             (zip [0 ..< nat count] (take (nat count) param_sets)) vs)
        \<and> (generate_variants w cs category count = Inr vs \<longrightarrow> length vs = nat count))
   \<and> (make_variant w cs category k ps = Inr v \<longrightarrow>
        v_style_params v = ps
        \<and> (\<exists>name. p_name ps = Some name
              \<and> v_name v = ''Variant '' @ py_str_int (int k + 1) @ '' ('' @ name @ '')'')
        \<and> (\<exists>tc weights. apply_transformations w cs category (Some ps) = Inr tc
              \<and> c_semantic_weights cs = Some weights
              \<and> build_prompt_skeleton w tc category weights = Inr (v_skeleton v)))
   \<and> (generate_variants w cs category 3 = Inr vs \<longrightarrow>
        map v_name vs = [''Variant 1 (Subtle)'', ''Variant 2 (Balanced)'',
                         ''Variant 3 (Intense)'']
        \<and> map v_style_params vs = take 3 param_sets
        \<and> map (\<lambda>v. p_name (v_style_params v)) vs
            = [Some ''Subtle'', Some ''Balanced'', Some ''Intense''])"
proof -
  have invalid: "generate_variants w cs category count = Inl InvalidCount"
    if "count < 1 \<or> 5 < count"
    using that by (auto simp: generate_variants_def)
  have char: "generate_variants w cs category n = Inr xs \<longleftrightarrow>
           list_all2 (\<lambda>(k, p) v. make_variant w cs category k p = Inr v)
             (zip [0 ..< nat n] (take (nat n) param_sets)) xs"
    if "1 \<le> n \<and> n \<le> 5" for n xs
  proof -
    have len: "min (length param_sets) (nat n) = nat n"
      using that by (auto simp: length_param_sets min_def)
    show ?thesis
      using that variants_loop_Inr [of w cs category 0 "take (nat n) param_sets" "[]" xs]
      by (simp add: generate_variants_def len)
  qed
  have len: "length vs = nat count"
    if "1 \<le> count \<and> count \<le> 5" "generate_variants w cs category count = Inr vs"
  proof -
    from that char [of count vs]
    have "length (zip [0 ..< nat count] (take (nat count) param_sets)) = length vs"
      by (auto dest: list_all2_lengthD)
    then show ?thesis using that(1) by (auto simp: length_param_sets min_def split: if_splits)
  qed
  have three: "map v_name vs = [''Variant 1 (Subtle)'', ''Variant 2 (Balanced)'',
                         ''Variant 3 (Intense)'']
        \<and> map v_style_params vs = take 3 param_sets
        \<and> map (\<lambda>v. p_name (v_style_params v)) vs
            = [Some ''Subtle'', Some ''Balanced'', Some ''Intense'']"
    if "generate_variants w cs category 3 = Inr vs"
  proof -
    have "(1::int) \<le> 3 \<and> (3::int) \<le> 5" by simp
    from char [OF this, of vs, THEN iffD1, OF that]
    have "list_all2 (\<lambda>(k, p) v. make_variant w cs category k p = Inr v)
            [(0, param_sets ! 0), (Suc 0, param_sets ! Suc 0), (2, param_sets ! 2)] vs"
      unfolding three_presets .
    then obtain v0 v1 v2 where
      vs: "vs = [v0, v1, v2]"
      and m0: "make_variant w cs category 0 (param_sets ! 0) = Inr v0"
      and m1: "make_variant w cs category (Suc 0) (param_sets ! Suc 0) = Inr v1"
      and m2: "make_variant w cs category 2 (param_sets ! 2) = Inr v2"
      by (auto simp: list_all2_Cons1)
    show ?thesis
      using make_variant_Inr [OF m0] make_variant_Inr [OF m1] make_variant_Inr [OF m2]
      by (auto simp: vs preset_names)
  qed
  show ?thesis
    using invalid char [of count vs] len three make_variant_Inr [of w cs category k ps v]
    by blast
qed

section \<open>The module tables on the loader path\<close>

text \<open>
  When the loader succeeds, \<^verbatim>\<open>TEMPLATES\<close> is what the first call of \<^verbatim>\<open>get_templates\<close>
  returns, the empty dictionary, and assembly fails for every category with the
  \<^verbatim>\<open>KeyError\<close> of \<^verbatim>\<open>TEMPLATES[category]\<close>. A second call would return the filled cache.
\<close>

lemma get_templates_first_call:
  "fst (get_templates None) = [] \<and> fst (get_templates (snd (get_templates None))) = template_map"
  by (simp add: get_templates_def template_map_def)

lemma loader_world_no_template:
  "build_prompt_skeleton (loader_world instances) tc category ws = Inl (KeyError category)"
  by (simp add: build_prompt_skeleton_def loader_world_def get_templates_def dict_get_def)

text \<open>
  For a subject without name and profession, the typography of the three categories
  with on-box text raises: \<^verbatim>\<open>profession\<close> is \<^verbatim>\<open>None\<close> and has no \<^verbatim>\<open>upper\<close>.
\<close>

lemma subjectless_typography_raises:
  "category \<in> set [''mascot_theater'', ''kid_chaos'', ''nostalgia_revival''] \<Longrightarrow>
   transform_typography default_subject category params = Inl AttributeError"
  by (auto simp: transform_typography_def default_subject_def)

text \<open>
  On the loader path no round of the loop of \<^verbatim>\<open>generate_variants\<close> returns: when
  the transformation succeeds and the weights are stored, the assembly raises the
  \<^verbatim>\<open>KeyError\<close> of the missing template.
\<close>

lemma make_variant_loader_world:
  "isl (make_variant (loader_world instances) cs category i ps)"
  by (simp add: make_variant_def bind_err_def loader_world_no_template
      split: sum.splits option.splits)

lemma make_variant_loader_world_KeyError:
  "apply_transformations (loader_world instances) cs category (Some ps) = Inr tc \<Longrightarrow>
   c_semantic_weights cs = Some ws \<Longrightarrow>
   make_variant (loader_world instances) cs category i ps = Inl (KeyError category)"
  by (simp add: make_variant_def bind_err_def loader_world_no_template)

lemma take_param_sets:
  "1 \<le> count \<Longrightarrow> take (nat count) param_sets = param_sets ! 0 # take (nat count - 1) (tl param_sets)"
  by (cases "nat count") (auto simp: param_sets_def)

text \<open>
  Three runs of the parser followed by \<^verbatim>\<open>generate_variants\<close> with count 3 for
  \<^verbatim>\<open>mascot_theater\<close>: on the loader path; with \<^verbatim>\<open>TEMPLATES\<close> bound to the filled
  table; and with the filled table for a text without a subject.
\<close>

lemma variants_on_loader_path:
  "bind_err (parse_prompt (loader_world category_instances) ''a cat'')
        (\<lambda>parsed. generate_variants (loader_world category_instances) parsed
                     ''mascot_theater'' 3)
      = Inl (KeyError ''mascot_theater'')"
  by code_simp

lemma variants_with_filled_templates:
  "map_sum id (map v_name)
        (bind_err (parse_prompt (cached_world category_instances) ''a cat'')
           (\<lambda>parsed. generate_variants (cached_world category_instances) parsed
                        ''mascot_theater'' 3))
      = Inr [''Variant 1 (Subtle)'', ''Variant 2 (Balanced)'', ''Variant 3 (Intense)'']"
  by code_simp

lemma variants_subjectless:
  "bind_err (parse_prompt (cached_world category_instances) ''oh my'')
        (\<lambda>parsed. generate_variants (cached_world category_instances) parsed
                     ''mascot_theater'' 3)
      = Inl AttributeError"
  by code_simp

text \<open>
  Claim C6: \<^verbatim>\<open>generate_variants\<close> fails with the InvalidCount condition for every
  count outside 1 to 5, and for count 3 returns exactly 3 variants tagged Subtle,
  Balanced, Intense in that order, each with its style-parameter bundle and a full
  skeleton. The count check is as claimed. The rest is not what the code does. On the
  loader path \<^verbatim>\<open>TEMPLATES\<close> is the empty dictionary that \<^verbatim>\<open>get_templates\<close> returns
  in place of the table it has just built, so no call returns variants, whatever its
  arguments are: a call with a count from 1 to 5 whose first transformation succeeds
  raises the \<^verbatim>\<open>KeyError\<close> of \<^verbatim>\<open>TEMPLATES[category]\<close>, as the call with count 3 on the
  parsed text \<^verbatim>\<open>a cat\<close> for \<^verbatim>\<open>mascot_theater\<close> does. With \<^verbatim>\<open>TEMPLATES\<close> bound to the
  table that was built, the same call returns the three variants of the claim; but
  for the parsed text \<^verbatim>\<open>oh my\<close>, which has no subject, it raises \<^verbatim>\<open>AttributeError\<close>,
  from \<^verbatim>\<open>None.upper()\<close> in the typography of the category.
\<close>

theorem generate_variants_raises:
  "(count < 1 \<or> 5 < count \<longrightarrow> generate_variants w cs category count = Inl InvalidCount)
   \<and> isl (generate_variants (loader_world instances) cs category count)
   \<and> (1 \<le> count \<and> count \<le> 5
        \<and> apply_transformations (loader_world instances) cs category (Some (param_sets ! 0))
            = Inr tc
        \<and> c_semantic_weights cs = Some ws \<longrightarrow>
      generate_variants (loader_world instances) cs category count = Inl (KeyError category))
   \<and> bind_err (parse_prompt (loader_world category_instances) ''a cat'')
        (\<lambda>parsed. generate_variants (loader_world category_instances) parsed
                     ''mascot_theater'' 3)
      = Inl (KeyError ''mascot_theater'')
   \<and> map_sum id (map v_name)
        (bind_err (parse_prompt (cached_world category_instances) ''a cat'')
           (\<lambda>parsed. generate_variants (cached_world category_instances) parsed
                        ''mascot_theater'' 3))
      = Inr [''Variant 1 (Subtle)'', ''Variant 2 (Balanced)'', ''Variant 3 (Intense)'']
   \<and> bind_err (parse_prompt (cached_world category_instances) ''oh my'')
        (\<lambda>parsed. generate_variants (cached_world category_instances) parsed
                     ''mascot_theater'' 3)
      = Inl AttributeError"
proof -
  have invalid: "generate_variants w' cs category count = Inl InvalidCount"
    if "count < 1 \<or> 5 < count" for w'
    using that by (auto simp: generate_variants_def)
  have first: "generate_variants (loader_world instances) cs category count
               = (case make_variant (loader_world instances) cs category 0 (param_sets ! 0) of
                    Inl e \<Rightarrow> Inl e | Inr v \<Rightarrow> Inr [])"
    if "1 \<le> count \<and> count \<le> 5"
    using that make_variant_loader_world [of instances cs category 0 "param_sets ! 0"]
    by (auto simp: generate_variants_def take_param_sets bind_err_def split: sum.splits)
  have never: "isl (generate_variants (loader_world instances) cs category count)"
  proof (cases "count < 1 \<or> 5 < count")
    case True
    then show ?thesis by (simp add: invalid)
  next
    case False
    then have "1 \<le> count \<and> count \<le> 5" by auto
    from first [OF this]
      make_variant_loader_world [of instances cs category 0 "param_sets ! 0"]
    show ?thesis by (auto split: sum.splits)
  qed
  have key: "generate_variants (loader_world instances) cs category count
             = Inl (KeyError category)"
    if "1 \<le> count \<and> count \<le> 5"
       "apply_transformations (loader_world instances) cs category (Some (param_sets ! 0))
          = Inr tc"
       "c_semantic_weights cs = Some ws"
    using first [OF that(1)] make_variant_loader_world_KeyError [OF that(2) that(3), of 0]
    by simp
  note run = variants_on_loader_path
  note cached = variants_with_filled_templates
  note subjectless = variants_subjectless
  show ?thesis
    using invalid never key run cached subjectless by blast
qed

theorem generate_variants_raises_witness:
  "generate_variants (loader_world category_instances) example_parsed ''mascot_theater'' 0
     = Inl InvalidCount
   \<and> generate_variants (loader_world category_instances) example_parsed ''mascot_theater'' 6
     = Inl InvalidCount
   \<and> \<not> isl (apply_transformations (loader_world category_instances) example_parsed
              ''mascot_theater'' (Some (param_sets ! 0)))
   \<and> c_semantic_weights example_parsed \<noteq> None
   \<and> generate_variants (loader_world category_instances) example_parsed ''mascot_theater'' 3
     = Inl (KeyError ''mascot_theater'')"
proof -
  let ?w = "loader_world category_instances"
  have a: "\<not> isl (apply_transformations ?w example_parsed ''mascot_theater''
                   (Some (param_sets ! 0)))"
    by code_simp
  then obtain tc where
    tc: "apply_transformations ?w example_parsed ''mascot_theater'' (Some (param_sets ! 0))
         = Inr tc"
    by (cases "apply_transformations ?w example_parsed ''mascot_theater''
                 (Some (param_sets ! 0))") auto
  have ws: "c_semantic_weights example_parsed
            = Some (calculate_semantic_weights example_components)"
    by (simp add: example_parsed_def)
  note i0 = generate_variants_raises
              [of 0 ?w example_parsed "''mascot_theater''" category_instances tc
                  "calculate_semantic_weights example_components"]
  note i6 = generate_variants_raises
              [of 6 ?w example_parsed "''mascot_theater''" category_instances tc
                  "calculate_semantic_weights example_components"]
  note i3 = generate_variants_raises
              [of 3 ?w example_parsed "''mascot_theater''" category_instances tc
                  "calculate_semantic_weights example_components"]
  from i0 have c0: "generate_variants ?w example_parsed ''mascot_theater'' 0 = Inl InvalidCount"
    by simp
  from i6 have c6: "generate_variants ?w example_parsed ''mascot_theater'' 6 = Inl InvalidCount"
    by simp
  from i3 tc ws
  have c3: "generate_variants ?w example_parsed ''mascot_theater'' 3
            = Inl (KeyError ''mascot_theater'')"
    by simp
  show ?thesis using a ws c0 c6 c3 by simp
qed

end
